theory Spec2Isabelle
  imports Complex_Main "HOL-Library.Multiset"
begin

section \<open>Data model of the flashcard application\<close>

text \<open>
  The program keeps its vocabulary as a list of Python dicts. A dict that \<open>load_words\<close>
  has returned always holds the five keys \<open>swedish\<close>, \<open>english\<close>, \<open>label\<close>,
  \<open>category\<close> and \<open>seen\<close> (the fields \<open>add_word\<close> writes), so the vocabulary in memory
  is a list of records with these fields. \<open>seen\<close> is a Python integer.
\<close>

record word =
  swedish :: string
  english :: string
  label :: string
  category :: string
  seen :: int

text \<open>
  An object of the JSON document \<open>swedish_words.json\<close>. The keys \<open>label\<close> and \<open>seen\<close>
  may be absent on disk; \<open>load_words\<close> tests for them. The keys \<open>swedish\<close>, \<open>english\<close>
  and \<open>category\<close> are read with a plain subscript by the draws, the existence test and
  the word table, and \<open>add_word\<close> always writes them: they are taken to be present.
  Keys other than these five are not modelled.
\<close>

record json_word =
  j_swedish :: string
  j_english :: string
  j_label :: "string option"
  j_category :: string
  j_seen :: "int option"

text \<open>
  The data file: absent (\<open>os.path.exists\<close> is false), present with a text that
  \<open>json.load\<close> rejects, or present holding a list of objects.
\<close>

datatype data_file = Missing | Malformed | Stored "json_word list"

datatype error = JSONDecodeError

definition COOLDOWN_SECONDS :: real where
  "COOLDOWN_SECONDS = 300"

section \<open>Vocabulary store\<close>

text \<open>\<open>json.dump(words, f)\<close>: every dict is written with all of its five keys.\<close>

definition dump_word :: "word \<Rightarrow> json_word" where
  "dump_word w = \<lparr>j_swedish = swedish w, j_english = english w, j_label = Some (label w),
                  j_category = category w, j_seen = Some (seen w)\<rparr>"

definition save_words :: "word list \<Rightarrow> data_file" where
  "save_words ws = Stored (map dump_word ws)"

text \<open>
  The body of the loop of \<open>load_words\<close>: a missing \<open>label\<close> becomes \<open>"0%"\<close>, a missing
  \<open>seen\<close> becomes \<open>0\<close>, everything present is kept.
\<close>

definition normalize :: "json_word \<Rightarrow> word" where
  "normalize j = \<lparr>swedish = j_swedish j, english = j_english j,
                  label = (case j_label j of None \<Rightarrow> ''0%'' | Some l \<Rightarrow> l),
                  category = j_category j,
                  seen = (case j_seen j of None \<Rightarrow> 0 | Some n \<Rightarrow> n)\<rparr>"

text \<open>
  \<open>load_words\<close> returns the vocabulary and the data file it leaves behind: it writes
  the normalized list back before returning, except when the file does not exist.
\<close>

fun load_words :: "data_file \<Rightarrow> error + (word list \<times> data_file)" where
  "load_words Missing = Inr ([], Missing)"
| "load_words Malformed = Inl JSONDecodeError"
| "load_words (Stored js) = (let ws = map normalize js in Inr (ws, save_words ws))"

text \<open>
  \<open>str.lower\<close> is Python's Unicode lower-casing; it is a parameter \<open>lower\<close> of the two
  functions that call it. \<open>ascii_lower\<close> is its restriction to ASCII letters.
\<close>

definition lower_char :: "char \<Rightarrow> char" where
  "lower_char c =
     (case map_of (zip ''ABCDEFGHIJKLMNOPQRSTUVWXYZ'' ''abcdefghijklmnopqrstuvwxyz'') c of
        None \<Rightarrow> c
      | Some l \<Rightarrow> l)"

definition ascii_lower :: "string \<Rightarrow> string" where
  "ascii_lower s = map lower_char s"

definition word_exists :: "(string \<Rightarrow> string) \<Rightarrow> string \<Rightarrow> data_file \<Rightarrow> error + (bool \<times> data_file)" where
  "word_exists lower swedish_word f =
     (case load_words f of
        Inl e \<Rightarrow> Inl e
      | Inr (ws, f') \<Rightarrow> Inr (list_ex (\<lambda>w. lower (swedish w) = lower swedish_word) ws, f'))"

definition add_word ::
  "(string \<Rightarrow> string) \<Rightarrow> string \<Rightarrow> string \<Rightarrow> string \<Rightarrow> data_file \<Rightarrow> error + (bool \<times> data_file)" where
  "add_word lower sw en cat f =
     (case word_exists lower sw f of
        Inl e \<Rightarrow> Inl e
      | Inr (found, f1) \<Rightarrow>
          if found then Inr (False, f1)
          else (case load_words f1 of
                  Inl e \<Rightarrow> Inl e
                | Inr (ws, f2) \<Rightarrow>
                    Inr (True, save_words (ws @ [\<lparr>swedish = sw, english = en,
                           label = ''0%'', category = cat, seen = 0\<rparr>]))))"

section \<open>Random choices\<close>

text \<open>
  The calls into Python's \<open>random\<close> module take their random draws as an argument: a
  stream \<open>rnd\<close> of natural numbers, any stream whatever. \<open>random.sample(population, k)\<close>
  draws a position of the population, removes the element there and goes on with the
  rest, \<open>k\<close> times. Python raises \<open>ValueError\<close> when \<open>k\<close> exceeds the population;
  the only caller passes \<open>min(len(lw), count)\<close>, and the empty population is never
  sampled from.
\<close>

fun sample :: "'a list \<Rightarrow> nat \<Rightarrow> (nat \<Rightarrow> nat) \<Rightarrow> 'a list" where
  "sample population 0 rnd = []"
| "sample population (Suc k) rnd =
     (if population = [] then []
      else (let j = rnd 0 mod length population
            in population ! j #
               sample (take j population @ drop (Suc j) population) k (\<lambda>n. rnd (Suc n))))"

text \<open>\<open>random.shuffle\<close>: a random arrangement of the whole list.\<close>

definition shuffle :: "'a list \<Rightarrow> (nat \<Rightarrow> nat) \<Rightarrow> 'a list" where
  "shuffle xs rnd = sample xs (length xs) rnd"

text \<open>\<open>random.choice(seq)\<close> is \<open>seq[randbelow(len(seq))]\<close>; its callers test that
  the sequence is not empty.\<close>

definition choice :: "'a list \<Rightarrow> nat \<Rightarrow> 'a" where
  "choice xs r = xs ! (r mod length xs)"

text \<open>The random draws of one page run: one stream for the sample of each label, one
  for the shuffle, one number for the final choice.\<close>

record rng =
  sample_rnd :: "string \<Rightarrow> nat \<Rightarrow> nat"
  shuffle_rnd :: "nat \<Rightarrow> nat"
  choice_rnd :: nat

section \<open>Selection engine\<close>

text \<open>
  The lists \<open>pool\<close>, \<open>lw\<close> and \<open>result\<close> of \<open>select_random_mixture\<close> hold references to
  the dicts of \<open>words\<close>, and the caller mutates the dict it draws. A reference is the
  position of the dict in \<open>words\<close>, so these lists are lists of positions.

  The ratios are a dict from label to a Python float; it is the list of its items in
  iteration order (the keys of a dict are distinct). \<open>int(len(pool) * ratio)\<close> is
  floating-point arithmetic and is the parameter \<open>scale\<close>, applied to \<open>len(pool)\<close> and
  \<open>ratio\<close>; \<open>floor_product\<close> is that product in exact arithmetic.
\<close>

definition floor_product :: "nat \<Rightarrow> rat \<Rightarrow> int" where
  "floor_product n r = \<lfloor>of_nat n * r\<rfloor>"

text \<open>One pass of the loop body: the words of the pool with the label, the count, and
  the sample that is appended to \<open>result\<close>.\<close>

definition label_sample ::
  "(nat \<Rightarrow> 'r \<Rightarrow> int) \<Rightarrow> word list \<Rightarrow> nat list \<Rightarrow> (string \<Rightarrow> nat \<Rightarrow> nat) \<Rightarrow>
   string \<Rightarrow> 'r \<Rightarrow> nat list" where
  "label_sample scale ws pool srnd lbl ratio =
     (let lw = filter (\<lambda>i. label (ws ! i) = lbl) pool;
          count = max 1 (scale (length pool) ratio)
      in sample lw (nat (min (int (length lw)) count)) (srnd lbl))"

fun mixture_loop ::
  "(nat \<Rightarrow> 'r \<Rightarrow> int) \<Rightarrow> word list \<Rightarrow> nat list \<Rightarrow> (string \<Rightarrow> nat \<Rightarrow> nat) \<Rightarrow>
   (string \<times> 'r) list \<Rightarrow> nat list \<Rightarrow> nat list" where
  "mixture_loop scale ws pool srnd [] result = result"
| "mixture_loop scale ws pool srnd ((lbl, ratio) # rest) result =
     mixture_loop scale ws pool srnd rest (result @ label_sample scale ws pool srnd lbl ratio)"

definition select_random_mixture ::
  "(nat \<Rightarrow> 'r \<Rightarrow> int) \<Rightarrow> word list \<Rightarrow> (string \<times> 'r) list \<Rightarrow> rng \<Rightarrow> nat list" where
  "select_random_mixture scale ws ratios g =
     (let pool = filter (\<lambda>i. label (ws ! i) \<in> set (map fst ratios)) [0..<length ws];
          result = mixture_loop scale ws pool (sample_rnd g) ratios []
      in shuffle result (shuffle_rnd g))"

section \<open>The pages of \<open>main\<close>\<close>

text \<open>
  The state a page run works on: the list \<open>words\<close> that \<open>main\<close> loaded, the data
  file, and the session state (\<open>recently_seen\<close>, \<open>current_word\<close>, \<open>reveal\<close>). Times are
  the values of \<open>time.time()\<close>.
\<close>

record app =
  vocabulary :: "word list"
  stored :: data_file
  recently_seen :: "string \<rightharpoonup> real"
  current_word :: "word option"
  reveal :: bool

text \<open>What a press of a draw button does: it shows a word, or the warning that there
  is none.\<close>

datatype outcome = Drawn nat | NoCandidate

text \<open>
  The pages "Learn New Words (Random)" and "English to Swedish Mode" are the same code
  up to the field that names a word in \<open>recently_seen\<close>.
\<close>

datatype direction = SwedishToEnglish | EnglishToSwedish

fun exposure :: "direction \<Rightarrow> word \<Rightarrow> string" where
  "exposure SwedishToEnglish w = swedish w"
| "exposure EnglishToSwedish w = english w"

definition prune :: "real \<Rightarrow> (string \<rightharpoonup> real) \<Rightarrow> (string \<rightharpoonup> real)" where
  "prune now rs =
     (\<lambda>w. case rs w of None \<Rightarrow> None
                      | Some t \<Rightarrow> if now - t < COOLDOWN_SECONDS then Some t else None)"

definition available_words ::
  "(nat \<Rightarrow> 'r \<Rightarrow> int) \<Rightarrow> direction \<Rightarrow> word list \<Rightarrow> (string \<times> 'r) list \<Rightarrow>
   (string \<rightharpoonup> real) \<Rightarrow> rng \<Rightarrow> nat list" where
  "available_words scale d ws ratios rs g =
     filter (\<lambda>i. rs (exposure d (ws ! i)) = None) (select_random_mixture scale ws ratios g)"

text \<open>The handler of the draw button of the two mixture pages.\<close>

definition draw_new_word :: "direction \<Rightarrow> real \<Rightarrow> nat list \<Rightarrow> nat \<Rightarrow> app \<Rightarrow> outcome \<times> app" where
  "draw_new_word d now avail r st =
     (if avail \<noteq> [] then
        (let selected = choice avail r;
             ws = vocabulary st;
             ws' = ws[selected := (ws ! selected)\<lparr>seen := seen (ws ! selected) + 1\<rparr>]
         in (Drawn selected,
             st\<lparr>vocabulary := ws', stored := save_words ws',
                current_word := Some (ws' ! selected), reveal := False,
                recently_seen := (recently_seen st)(exposure d (ws' ! selected) \<mapsto> now)\<rparr>))
      else (NoCandidate, st))"

text \<open>A run of a mixture page with the draw button pressed: prune the cooldown map,
  compute the drawable words, then handle the button.\<close>

definition draw_mixed ::
  "(nat \<Rightarrow> 'r \<Rightarrow> int) \<Rightarrow> direction \<Rightarrow> (string \<times> 'r) list \<Rightarrow> real \<Rightarrow> rng \<Rightarrow> app \<Rightarrow> outcome \<times> app" where
  "draw_mixed scale d ratios now g st =
     (let st1 = st\<lparr>recently_seen := prune now (recently_seen st)\<rparr>;
          avail = available_words scale d (vocabulary st1) ratios (recently_seen st1) g
      in draw_new_word d now avail (choice_rnd g) st1)"

text \<open>The page "Flashcards by Category" with its draw button pressed.\<close>

definition draw_by_category :: "string \<Rightarrow> nat \<Rightarrow> app \<Rightarrow> outcome \<times> app" where
  "draw_by_category selected_category r st =
     (let ws = vocabulary st;
          filtered_words = filter (\<lambda>i. category (ws ! i) = selected_category) [0..<length ws]
      in if filtered_words \<noteq> [] then
           (let selected = choice filtered_words r;
                ws' = ws[selected := (ws ! selected)\<lparr>seen := seen (ws ! selected) + 1\<rparr>]
            in (Drawn selected,
                st\<lparr>current_word := Some (ws' ! selected), reveal := False,
                   vocabulary := ws', stored := save_words ws'\<rparr>))
         else (NoCandidate, st))"

section \<open>Bulk update of the admin panel\<close>

text \<open>
  \<open>checked idx\<close> is the state of the checkbox \<open>select_idx\<close>; a checkbox is shown, and
  read, for the eligible words only.
\<close>

definition eligible :: "string list \<Rightarrow> int \<Rightarrow> int \<Rightarrow> word \<Rightarrow> bool" where
  "eligible selected_labels min_seen max_seen w =
     (let label_match = (selected_labels = [] \<or> label w \<in> set selected_labels);
          seen_match = (min_seen \<le> seen w \<and> seen w \<le> max_seen)
      in label_match \<or> seen_match)"

definition selected_indices ::
  "string list \<Rightarrow> int \<Rightarrow> int \<Rightarrow> (nat \<Rightarrow> bool) \<Rightarrow> word list \<Rightarrow> nat list" where
  "selected_indices selected_labels min_seen max_seen checked ws =
     filter (\<lambda>idx. eligible selected_labels min_seen max_seen (ws ! idx) \<and> checked idx)
       [0..<length ws]"

fun apply_loop :: "string \<Rightarrow> int \<Rightarrow> nat list \<Rightarrow> word list \<Rightarrow> word list" where
  "apply_loop new_bulk_label new_seen_value [] ws = ws"
| "apply_loop new_bulk_label new_seen_value (idx # rest) ws =
     apply_loop new_bulk_label new_seen_value rest
       (ws[idx := (ws ! idx)\<lparr>label := new_bulk_label, seen := new_seen_value\<rparr>])"

definition apply_bulk_update ::
  "string list \<Rightarrow> int \<Rightarrow> int \<Rightarrow> (nat \<Rightarrow> bool) \<Rightarrow> string \<Rightarrow> int \<Rightarrow> app \<Rightarrow> app" where
  "apply_bulk_update selected_labels min_seen max_seen checked new_bulk_label new_seen_value st =
     (let ws = apply_loop new_bulk_label new_seen_value
                 (selected_indices selected_labels min_seen max_seen checked (vocabulary st))
                 (vocabulary st)
      in st\<lparr>vocabulary := ws, stored := save_words ws\<rparr>)"

section \<open>Properties of the store and of the random choices\<close>

lemma normalize_dump: "normalize (dump_word w) = w"
  by (simp add: normalize_def dump_word_def)

lemma load_save: "load_words (save_words ws) = Inr (ws, save_words ws)"
  by (simp add: save_words_def normalize_dump comp_def)

lemma remove_nth_length:
  "j < length xs \<Longrightarrow> length (take j xs @ drop (Suc j) xs) = length xs - 1"
  by simp

lemma sample_length: "k \<le> length xs \<Longrightarrow> length (sample xs k rnd) = k"
proof (induction xs k rnd rule: sample.induct)
  case (2 xs k rnd)
  then have ne: "xs \<noteq> []" by auto
  let ?j = "rnd 0 mod length xs"
  have j: "?j < length xs" using ne by simp
  have "k \<le> length (take ?j xs @ drop (Suc ?j) xs)"
    using 2(2) remove_nth_length[OF j] by simp
  then have "length (sample (take ?j xs @ drop (Suc ?j) xs) k (\<lambda>n. rnd (Suc n))) = k"
    using 2(1)[OF ne refl] by simp
  then show ?case using ne by (simp add: Let_def)
qed simp

lemma mset_remove_nth:
  "j < length xs \<Longrightarrow> mset xs = add_mset (xs ! j) (mset (take j xs @ drop (Suc j) xs))"
proof -
  assume j: "j < length xs"
  have "mset xs = mset (take j xs @ xs ! j # drop (Suc j) xs)"
    using id_take_nth_drop[OF j] by simp
  then show ?thesis by simp
qed

lemma sample_mset: "mset (sample xs k rnd) \<subseteq># mset xs"
proof (induction xs k rnd rule: sample.induct)
  case (2 xs k rnd)
  show ?case
  proof (cases "xs = []")
    case True then show ?thesis by simp
  next
    case ne: False
    let ?j = "rnd 0 mod length xs"
    let ?rest = "take ?j xs @ drop (Suc ?j) xs"
    have j: "?j < length xs" using ne by simp
    have ih: "mset (sample ?rest k (\<lambda>n. rnd (Suc n))) \<subseteq># mset ?rest"
      using 2[OF ne refl] .
    have eq: "mset xs = add_mset (xs ! ?j) (mset ?rest)"
      using j by (rule mset_remove_nth)
    have "add_mset (xs ! ?j) (mset (sample ?rest k (\<lambda>n. rnd (Suc n)))) \<subseteq># add_mset (xs ! ?j) (mset ?rest)"
      using ih by simp
    then have "add_mset (xs ! ?j) (mset (sample ?rest k (\<lambda>n. rnd (Suc n)))) \<subseteq># mset xs"
      using eq by simp
    then show ?thesis using ne by (simp add: Let_def)
  qed
qed simp

lemma sample_full_mset: "mset (sample xs (length xs) rnd) = mset xs"
proof (rule ccontr)
  assume ne: "mset (sample xs (length xs) rnd) \<noteq> mset xs"
  have "mset (sample xs (length xs) rnd) \<subset># mset xs"
    using sample_mset[of xs "length xs" rnd] ne by (simp add: subset_mset.less_le)
  then have "size (mset (sample xs (length xs) rnd)) < size (mset xs)"
    by (rule mset_subset_size)
  then show False by (simp add: sample_length)
qed

lemma shuffle_mset: "mset (shuffle xs rnd) = mset xs"
  by (simp add: shuffle_def sample_full_mset)

lemma sample_set: "set (sample xs k rnd) \<subseteq> set xs"
  using set_mset_mono[OF sample_mset[of xs k rnd]] by simp

lemma sample_distinct: "distinct xs \<Longrightarrow> distinct (sample xs k rnd)"
proof -
  assume d: "distinct xs"
  have "\<And>a. count (mset (sample xs k rnd)) a \<le> count (mset xs) a"
    using sample_mset[of xs k rnd] by (simp add: mset_subset_eq_count)
  moreover have "\<And>a. count (mset xs) a \<le> 1"
    using d by (simp add: distinct_count_atmost_1)
  ultimately have "\<And>a. count (mset (sample xs k rnd)) a \<le> 1"
    using le_trans by blast
  then show ?thesis
    unfolding distinct_count_atmost_1 by (metis count_mset_0_iff le_neq_implies_less less_one nat_less_le)
qed


lemma load_words_twice:
  "load_words f = Inr (ws, f') \<Longrightarrow> load_words f' = Inr (ws, f')"
  by (cases f) (auto simp: Let_def load_save)

lemma word_exists_eq:
  "load_words f = Inr (ws, f') \<Longrightarrow>
   word_exists lower k f = Inr (list_ex (\<lambda>w. lower (swedish w) = lower k) ws, f')"
  by (simp add: word_exists_def)

lemma add_word_found:
  assumes "load_words f = Inr (ws, f')" and "\<exists>w\<in>set ws. lower (swedish w) = lower k"
  shows "add_word lower k en cat f = Inr (False, f')"
  using assms by (simp add: add_word_def word_exists_eq list_ex_iff)

lemma add_word_fresh:
  assumes "load_words f = Inr (ws, f')" and "\<not> (\<exists>w\<in>set ws. lower (swedish w) = lower k)"
  shows "add_word lower k en cat f =
         Inr (True, save_words (ws @ [\<lparr>swedish = k, english = en, label = ''0%'',
                                       category = cat, seen = 0\<rparr>]))"
  using assms load_words_twice[OF assms(1)]
  by (simp add: add_word_def word_exists_eq list_ex_iff)

lemma add_word_error:
  "load_words f = Inl e \<Longrightarrow> add_word lower k en cat f = Inl e"
  by (simp add: add_word_def word_exists_def)

section \<open>Load normalization\<close>

text \<open>
  Claim C7. \<open>load_words\<close> on a missing data file returns the empty vocabulary and
  writes nothing. On a stored list it returns a vocabulary of the same length and order
  in which every word keeps its \<open>swedish\<close>, \<open>english\<close> and \<open>category\<close>, keeps a \<open>label\<close>
  and a \<open>seen\<close> that were present, and has \<open>label = "0%"\<close> and \<open>seen = 0\<close> where they
  were missing; the file it leaves is that vocabulary saved; and loading that file again
  returns the same vocabulary and leaves the same file.
\<close>

theorem load_words_normalizes:
  "load_words Missing = Inr ([], Missing) \<and>
   (\<exists>ws. load_words (Stored js) = Inr (ws, save_words ws) \<and>
      length ws = length js \<and>
      (\<forall>i < length js.
         swedish (ws ! i) = j_swedish (js ! i) \<and>
         english (ws ! i) = j_english (js ! i) \<and>
         category (ws ! i) = j_category (js ! i) \<and>
         label (ws ! i) = (case j_label (js ! i) of None \<Rightarrow> ''0%'' | Some l \<Rightarrow> l) \<and>
         seen (ws ! i) = (case j_seen (js ! i) of None \<Rightarrow> 0 | Some n \<Rightarrow> n)) \<and>
      load_words (save_words ws) = Inr (ws, save_words ws))"
  by (simp add: Let_def load_save normalize_def)

theorem load_words_normalizes_witness:
  "load_words (Stored [\<lparr>j_swedish = ''hund'', j_english = ''dog'', j_label = None,
                        j_category = ''animals'', j_seen = None\<rparr>,
                      \<lparr>j_swedish = ''katt'', j_english = ''cat'', j_label = Some ''50%'',
                        j_category = ''animals'', j_seen = Some 3\<rparr>]) =
     Inr ([\<lparr>swedish = ''hund'', english = ''dog'', label = ''0%'',
             category = ''animals'', seen = 0\<rparr>,
           \<lparr>swedish = ''katt'', english = ''cat'', label = ''50%'',
             category = ''animals'', seen = 3\<rparr>],
          save_words [\<lparr>swedish = ''hund'', english = ''dog'', label = ''0%'',
                        category = ''animals'', seen = 0\<rparr>,
                      \<lparr>swedish = ''katt'', english = ''cat'', label = ''50%'',
                        category = ''animals'', seen = 3\<rparr>]) \<and>
   load_words (save_words [\<lparr>swedish = ''hund'', english = ''dog'', label = ''0%'',
                             category = ''animals'', seen = 0\<rparr>,
                           \<lparr>swedish = ''katt'', english = ''cat'', label = ''50%'',
                             category = ''animals'', seen = 3\<rparr>]) =
     Inr ([\<lparr>swedish = ''hund'', english = ''dog'', label = ''0%'',
             category = ''animals'', seen = 0\<rparr>,
           \<lparr>swedish = ''katt'', english = ''cat'', label = ''50%'',
             category = ''animals'', seen = 3\<rparr>],
          save_words [\<lparr>swedish = ''hund'', english = ''dog'', label = ''0%'',
                        category = ''animals'', seen = 0\<rparr>,
                      \<lparr>swedish = ''katt'', english = ''cat'', label = ''50%'',
                        category = ''animals'', seen = 3\<rparr>])"
  using load_words_normalizes
    [of "[\<lparr>j_swedish = ''hund'', j_english = ''dog'', j_label = None,
            j_category = ''animals'', j_seen = None\<rparr>,
          \<lparr>j_swedish = ''katt'', j_english = ''cat'', j_label = Some ''50%'',
            j_category = ''animals'', j_seen = Some 3\<rparr>]"]
  by (simp add: normalize_def Let_def)

section \<open>Adding a word\<close>

text \<open>
  Claim C4. When the vocabulary read from the data file holds a word whose \<open>swedish\<close>
  equals the new key after lower-casing both, \<open>add_word\<close> returns \<open>False\<close> and the
  vocabulary read back from the file it leaves is the one read before; a file written by
  \<open>save_words\<close> is left as it was. After an \<open>add_word\<close> that returned \<open>True\<close>, an
  \<open>add_word\<close> of a key with the same lower-casing returns \<open>False\<close>, leaves the file as
  it was, and the file holds exactly one word with that key. A vocabulary whose
  lower-cased keys are pairwise distinct keeps that property through \<open>add_word\<close>.
\<close>

theorem add_word_duplicate:
  "(load_words f = Inr (ws, f') \<and> (\<exists>w\<in>set ws. lower (swedish w) = lower k) \<longrightarrow>
      add_word lower k en cat f = Inr (False, f') \<and>
      load_words f' = Inr (ws, f') \<and>
      (\<forall>vs. f = save_words vs \<longrightarrow> f' = f)) \<and>
   (add_word lower k en cat f = Inr (True, f1) \<and> lower k2 = lower k \<longrightarrow>
      add_word lower k2 en2 cat2 f1 = Inr (False, f1) \<and>
      (\<exists>ws1. load_words f1 = Inr (ws1, f1) \<and>
         length (filter (\<lambda>w. lower (swedish w) = lower k) ws1) = 1)) \<and>
   (load_words f = Inr (ws, f') \<and> distinct (map (\<lambda>w. lower (swedish w)) ws) \<and>
    add_word lower k en cat f = Inr (b, f2) \<longrightarrow>
      (\<exists>ws2. load_words f2 = Inr (ws2, f2) \<and> distinct (map (\<lambda>w. lower (swedish w)) ws2)))"
proof (intro conjI impI)
  assume a: "load_words f = Inr (ws, f') \<and> (\<exists>w\<in>set ws. lower (swedish w) = lower k)"
  then show "add_word lower k en cat f = Inr (False, f')"
    using add_word_found by blast
  from a show "load_words f' = Inr (ws, f')"
    using load_words_twice by blast
  from a show "\<forall>vs. f = save_words vs \<longrightarrow> f' = f"
    by (auto simp: load_save)
next
  assume a: "add_word lower k en cat f = Inr (True, f1) \<and> lower k2 = lower k"
  obtain ws0 f0 where l: "load_words f = Inr (ws0, f0)"
    using a add_word_error[of f _ lower k en cat] by (cases "load_words f") auto
  have fresh: "\<not> (\<exists>w\<in>set ws0. lower (swedish w) = lower k)"
    using a add_word_found[OF l, of lower k en cat] by auto
  let ?new = "\<lparr>swedish = k, english = en, label = ''0%'', category = cat, seen = 0\<rparr>"
  have f1: "f1 = save_words (ws0 @ [?new])"
    using a add_word_fresh[OF l fresh, of en cat] by simp
  have l1: "load_words f1 = Inr (ws0 @ [?new], f1)"
    unfolding f1 by (rule load_save)
  have "\<exists>w\<in>set (ws0 @ [?new]). lower (swedish w) = lower k2"
    using a by simp
  then show "add_word lower k2 en2 cat2 f1 = Inr (False, f1)"
    using add_word_found[OF l1] by blast
  have "filter (\<lambda>w. lower (swedish w) = lower k) ws0 = []"
    using fresh by (auto simp: filter_empty_conv)
  then have "length (filter (\<lambda>w. lower (swedish w) = lower k) (ws0 @ [?new])) = 1"
    by simp
  then show "\<exists>ws1. load_words f1 = Inr (ws1, f1) \<and>
      length (filter (\<lambda>w. lower (swedish w) = lower k) ws1) = 1"
    using l1 by blast
next
  assume a: "load_words f = Inr (ws, f') \<and> distinct (map (\<lambda>w. lower (swedish w)) ws) \<and>
    add_word lower k en cat f = Inr (b, f2)"
  then have l: "load_words f = Inr (ws, f')" by simp
  show "\<exists>ws2. load_words f2 = Inr (ws2, f2) \<and> distinct (map (\<lambda>w. lower (swedish w)) ws2)"
  proof (cases "\<exists>w\<in>set ws. lower (swedish w) = lower k")
    case True
    then have "f2 = f'" using a add_word_found[OF l True, of en cat] by simp
    then show ?thesis using a load_words_twice[OF l] by blast
  next
    case False
    let ?new = "\<lparr>swedish = k, english = en, label = ''0%'', category = cat, seen = 0\<rparr>"
    have f2: "f2 = save_words (ws @ [?new])"
      using a add_word_fresh[OF l False, of en cat] by simp
    have "distinct (map (\<lambda>w. lower (swedish w)) (ws @ [?new]))"
      using a False by auto
    then show ?thesis unfolding f2 using load_save by blast
  qed
qed

text \<open>The example of the specification: \<open>add("Hund", \<dots>)\<close> on an empty store, then
  \<open>add("hund", \<dots>)\<close>.\<close>

theorem add_word_duplicate_witness:
  "add_word ascii_lower ''Hund'' ''dog'' ''animals'' Missing =
     Inr (True, save_words [\<lparr>swedish = ''Hund'', english = ''dog'', label = ''0%'',
                             category = ''animals'', seen = 0\<rparr>]) \<and>
   ascii_lower ''hund'' = ascii_lower ''Hund'' \<and>
   add_word ascii_lower ''hund'' ''hound'' ''pets''
     (save_words [\<lparr>swedish = ''Hund'', english = ''dog'', label = ''0%'',
                   category = ''animals'', seen = 0\<rparr>]) =
     Inr (False, save_words [\<lparr>swedish = ''Hund'', english = ''dog'', label = ''0%'',
                              category = ''animals'', seen = 0\<rparr>]) \<and>
   load_words (save_words [\<lparr>swedish = ''Hund'', english = ''dog'', label = ''0%'',
                   category = ''animals'', seen = 0\<rparr>]) =
     Inr ([\<lparr>swedish = ''Hund'', english = ''dog'', label = ''0%'',
                   category = ''animals'', seen = 0\<rparr>],
          save_words [\<lparr>swedish = ''Hund'', english = ''dog'', label = ''0%'',
                   category = ''animals'', seen = 0\<rparr>]) \<and>
   distinct (map (\<lambda>w. ascii_lower (swedish w))
     [\<lparr>swedish = ''Hund'', english = ''dog'', label = ''0%'',
       category = ''animals'', seen = 0\<rparr>])"
proof -
  let ?w = "\<lparr>swedish = ''Hund'', english = ''dog'', label = ''0%'',
             category = ''animals'', seen = 0\<rparr>"
  have first: "add_word ascii_lower ''Hund'' ''dog'' ''animals'' Missing =
      Inr (True, save_words [?w])"
    by (simp add: add_word_def word_exists_def)
  have low: "ascii_lower ''hund'' = ascii_lower ''Hund''"
    by (simp add: ascii_lower_def lower_char_def)
  have l: "load_words (save_words [?w]) = Inr ([?w], save_words [?w])"
    by (rule load_save)
  have ex: "\<exists>w\<in>set [?w]. ascii_lower (swedish w) = ascii_lower ''hund''"
    using low by simp
  have second: "add_word ascii_lower ''hund'' ''hound'' ''pets'' (save_words [?w]) =
      Inr (False, save_words [?w])"
    using first low
      add_word_duplicate[of Missing "[]" Missing ascii_lower "''Hund''" "''dog''" "''animals''"
        "save_words [?w]" "''hund''" "''hound''" "''pets''" True Missing]
    by simp
  have "add_word ascii_lower ''hund'' ''hound'' ''pets'' (save_words [?w]) =
          Inr (False, save_words [?w]) \<and>
        load_words (save_words [?w]) = Inr ([?w], save_words [?w]) \<and>
        (\<forall>vs. save_words [?w] = save_words vs \<longrightarrow> save_words [?w] = save_words [?w])"
    using l ex
      add_word_duplicate[of "save_words [?w]" "[?w]" "save_words [?w]" ascii_lower "''hund''"
        "''hound''" "''pets''" Missing "''hund''" "''hound''" "''pets''" False "save_words [?w]"]
    by blast
  then show ?thesis using first low second l by simp
qed

section \<open>Bulk update\<close>

lemma apply_loop_length: "length (apply_loop l s idxs ws) = length ws"
  by (induction idxs arbitrary: ws) simp_all

lemma apply_loop_nth:
  "i < length ws \<Longrightarrow>
   apply_loop l s idxs ws ! i =
     (if i \<in> set idxs then (ws ! i)\<lparr>label := l, seen := s\<rparr> else ws ! i)"
proof (induction idxs arbitrary: ws)
  case Nil
  then show ?case by simp
next
  case (Cons idx rest)
  let ?ws = "ws[idx := (ws ! idx)\<lparr>label := l, seen := s\<rparr>]"
  have len: "i < length ?ws" using Cons.prems by simp
  show ?case
    using Cons.IH[OF len] Cons.prems
    by (cases "i = idx") simp_all
qed

lemma selected_indices_set:
  "set (selected_indices sl mn mx checked ws) =
     {i. i < length ws \<and> eligible sl mn mx (ws ! i) \<and> checked i}"
  by (auto simp: selected_indices_def)

text \<open>
  Claim C3. The bulk update changes exactly the words that are eligible, that is, the
  label filter is empty, or the word's label is in the filter, or its \<open>seen\<close> lies in
  \<open>[min_seen, max_seen]\<close>, and whose checkbox is checked: each of them gets the target
  label and the target \<open>seen\<close> and keeps its other fields. Every other word, an
  eligible one that is not checked included, is unchanged, as are the length and order
  of the vocabulary and the cooldown map; the file is the whole updated vocabulary.
\<close>

theorem apply_bulk_update_precise:
  "length (vocabulary (apply_bulk_update sl mn mx checked nl ns st)) = length (vocabulary st) \<and>
   (\<forall>i < length (vocabulary st).
      vocabulary (apply_bulk_update sl mn mx checked nl ns st) ! i =
        (if (sl = [] \<or> label (vocabulary st ! i) \<in> set sl \<or>
             (mn \<le> seen (vocabulary st ! i) \<and> seen (vocabulary st ! i) \<le> mx)) \<and> checked i
         then (vocabulary st ! i)\<lparr>label := nl, seen := ns\<rparr>
         else vocabulary st ! i)) \<and>
   stored (apply_bulk_update sl mn mx checked nl ns st) =
     save_words (vocabulary (apply_bulk_update sl mn mx checked nl ns st)) \<and>
   recently_seen (apply_bulk_update sl mn mx checked nl ns st) = recently_seen st"
proof (intro conjI allI impI)
  show "length (vocabulary (apply_bulk_update sl mn mx checked nl ns st)) = length (vocabulary st)"
    by (simp add: apply_bulk_update_def Let_def apply_loop_length)
next
  fix i assume i: "i < length (vocabulary st)"
  have "vocabulary (apply_bulk_update sl mn mx checked nl ns st) ! i =
        apply_loop nl ns (selected_indices sl mn mx checked (vocabulary st)) (vocabulary st) ! i"
    by (simp add: apply_bulk_update_def Let_def)
  also have "\<dots> = (if i \<in> set (selected_indices sl mn mx checked (vocabulary st))
                    then (vocabulary st ! i)\<lparr>label := nl, seen := ns\<rparr> else vocabulary st ! i)"
    using i by (rule apply_loop_nth)
  finally show "vocabulary (apply_bulk_update sl mn mx checked nl ns st) ! i =
        (if (sl = [] \<or> label (vocabulary st ! i) \<in> set sl \<or>
             (mn \<le> seen (vocabulary st ! i) \<and> seen (vocabulary st ! i) \<le> mx)) \<and> checked i
         then (vocabulary st ! i)\<lparr>label := nl, seen := ns\<rparr>
         else vocabulary st ! i)"
    using i by (simp add: selected_indices_set eligible_def Let_def)
next
  show "stored (apply_bulk_update sl mn mx checked nl ns st) =
     save_words (vocabulary (apply_bulk_update sl mn mx checked nl ns st))"
    by (simp add: apply_bulk_update_def Let_def)
next
  show "recently_seen (apply_bulk_update sl mn mx checked nl ns st) = recently_seen st"
    by (simp add: apply_bulk_update_def Let_def)
qed

text \<open>The example of the specification: two words, seen range \<open>[0, 2]\<close>, no label
  filter, only the first checkbox checked.\<close>

theorem apply_bulk_update_precise_witness:
  "vocabulary (apply_bulk_update [] 0 2 (\<lambda>idx. idx = 0) ''100%'' 5
     \<lparr>vocabulary = [\<lparr>swedish = ''hund'', english = ''dog'', label = ''0%'',
                       category = ''animals'', seen = 1\<rparr>,
                     \<lparr>swedish = ''katt'', english = ''cat'', label = ''50%'',
                       category = ''animals'', seen = 9\<rparr>],
       stored = Missing, recently_seen = Map.empty, current_word = None, reveal = False\<rparr>) ! 0 =
     \<lparr>swedish = ''hund'', english = ''dog'', label = ''100%'', category = ''animals'', seen = 5\<rparr> \<and>
   vocabulary (apply_bulk_update [] 0 2 (\<lambda>idx. idx = 0) ''100%'' 5
     \<lparr>vocabulary = [\<lparr>swedish = ''hund'', english = ''dog'', label = ''0%'',
                       category = ''animals'', seen = 1\<rparr>,
                     \<lparr>swedish = ''katt'', english = ''cat'', label = ''50%'',
                       category = ''animals'', seen = 9\<rparr>],
       stored = Missing, recently_seen = Map.empty, current_word = None, reveal = False\<rparr>) ! 1 =
     \<lparr>swedish = ''katt'', english = ''cat'', label = ''50%'', category = ''animals'', seen = 9\<rparr>"
proof -
  let ?st = "\<lparr>vocabulary = [\<lparr>swedish = ''hund'', english = ''dog'', label = ''0%'',
                       category = ''animals'', seen = 1\<rparr>,
                     \<lparr>swedish = ''katt'', english = ''cat'', label = ''50%'',
                       category = ''animals'', seen = 9\<rparr>],
       stored = Missing, recently_seen = Map.empty, current_word = None, reveal = False\<rparr>"
  note t = apply_bulk_update_precise[of "[]" 0 2 "\<lambda>idx. idx = 0" "''100%''" 5 ?st,
      THEN conjunct2, THEN conjunct1, rule_format]
  show ?thesis using t[of 0] t[of 1] by simp
qed

section \<open>The candidates of the mixture\<close>

lemma mixture_loop_concat:
  "mixture_loop scale ws pool srnd ratios result =
     result @ concat (map (\<lambda>(lbl, ratio). label_sample scale ws pool srnd lbl ratio) ratios)"
  by (induction ratios arbitrary: result) auto

lemma label_sample_length:
  "length (label_sample scale ws pool srnd lbl ratio) =
     nat (min (int (length (filter (\<lambda>i. label (ws ! i) = lbl) pool)))
              (max 1 (scale (length pool) ratio)))"
  by (simp add: label_sample_def Let_def sample_length)

lemma label_sample_set:
  "set (label_sample scale ws pool srnd lbl ratio) \<subseteq> {i \<in> set pool. label (ws ! i) = lbl}"
  using sample_set[of "filter (\<lambda>i. label (ws ! i) = lbl) pool"]
  by (auto simp: label_sample_def Let_def)

lemma label_sample_distinct:
  "distinct pool \<Longrightarrow> distinct (label_sample scale ws pool srnd lbl ratio)"
  by (simp add: label_sample_def Let_def sample_distinct)

lemma label_sample_filter:
  "filter (\<lambda>i. label (ws ! i) = l) (label_sample scale ws pool srnd lbl ratio) =
     (if lbl = l then label_sample scale ws pool srnd lbl ratio else [])"
  using label_sample_set[of scale ws pool srnd lbl ratio]
  by (auto simp: filter_empty_conv filter_id_conv)

lemma concat_samples_set:
  "set (concat (map (\<lambda>(lbl, ratio). label_sample scale ws pool srnd lbl ratio) ratios)) \<subseteq>
     {i \<in> set pool. label (ws ! i) \<in> fst ` set ratios}"
proof (induction ratios)
  case Nil
  then show ?case by simp
next
  case (Cons a ratios)
  obtain lbl ratio where a: "a = (lbl, ratio)" by (cases a)
  show ?case
    using Cons.IH label_sample_set[of scale ws pool srnd lbl ratio]
    by (auto simp: a)
qed

lemma concat_samples_distinct:
  "distinct pool \<Longrightarrow> distinct (map fst ratios) \<Longrightarrow>
   distinct (concat (map (\<lambda>(lbl, ratio). label_sample scale ws pool srnd lbl ratio) ratios))"
proof (induction ratios)
  case Nil
  then show ?case by simp
next
  case (Cons a ratios)
  obtain lbl ratio where a: "a = (lbl, ratio)" by (cases a)
  have fresh: "lbl \<notin> fst ` set ratios" using Cons.prems(2) by (simp add: a)
  have "set (label_sample scale ws pool srnd lbl ratio) \<inter>
        set (concat (map (\<lambda>(lbl, ratio). label_sample scale ws pool srnd lbl ratio) ratios)) = {}"
    using label_sample_set[of scale ws pool srnd lbl ratio]
      concat_samples_set[of scale ws pool srnd ratios] fresh
    by blast
  then show ?case
    using Cons label_sample_distinct[of pool scale ws srnd lbl ratio]
    by (simp add: a)
qed

lemma concat_samples_filter_length:
  "distinct (map fst ratios) \<Longrightarrow> (l, r) \<in> set ratios \<Longrightarrow>
   length (filter (\<lambda>i. label (ws ! i) = l)
     (concat (map (\<lambda>(lbl, ratio). label_sample scale ws pool srnd lbl ratio) ratios))) =
   length (label_sample scale ws pool srnd l r)"
proof (induction ratios)
  case Nil
  then show ?case by simp
next
  case (Cons a ratios)
  obtain lbl ratio where a: "a = (lbl, ratio)" by (cases a)
  have fresh: "lbl \<notin> fst ` set ratios" using Cons.prems(1) by (simp add: a)
  show ?case
  proof (cases "(l, r) = (lbl, ratio)")
    case True
    then have "l \<notin> fst ` set ratios" using fresh by simp
    then have "\<And>x. x \<in> set (concat (map (\<lambda>(lbl, ratio).
        label_sample scale ws pool srnd lbl ratio) ratios)) \<Longrightarrow> label (ws ! x) \<noteq> l"
      using concat_samples_set[of scale ws pool srnd ratios] by blast
    then have "filter (\<lambda>i. label (ws ! i) = l)
        (concat (map (\<lambda>(lbl, ratio). label_sample scale ws pool srnd lbl ratio) ratios)) = []"
      unfolding filter_empty_conv by blast
    then show ?thesis using True by (simp add: a label_sample_filter)
  next
    case False
    then have mem: "(l, r) \<in> set ratios" using Cons.prems(2) by (auto simp: a)
    then have "l \<noteq> lbl" using fresh by force
    then show ?thesis
      using Cons.IH[OF _ mem] Cons.prems(1) by (simp add: a label_sample_filter)
  qed
qed

lemma select_random_mixture_mset:
  "mset (select_random_mixture scale ws ratios g) =
   mset (concat (map (\<lambda>(lbl, ratio). label_sample scale ws
           (filter (\<lambda>i. label (ws ! i) \<in> set (map fst ratios)) [0..<length ws])
           (sample_rnd g) lbl ratio) ratios))"
  by (simp add: select_random_mixture_def Let_def shuffle_mset mixture_loop_concat)

lemma select_random_mixture_set:
  "i \<in> set (select_random_mixture scale ws ratios g) \<Longrightarrow>
   i < length ws \<and> label (ws ! i) \<in> fst ` set ratios"
proof -
  assume "i \<in> set (select_random_mixture scale ws ratios g)"
  then have "i \<in># mset (select_random_mixture scale ws ratios g)" by simp
  then have "i \<in> set (concat (map (\<lambda>(lbl, ratio). label_sample scale ws
           (filter (\<lambda>i. label (ws ! i) \<in> set (map fst ratios)) [0..<length ws])
           (sample_rnd g) lbl ratio) ratios))"
    unfolding select_random_mixture_mset by simp
  then have "i \<in> {i \<in> set (filter (\<lambda>i. label (ws ! i) \<in> set (map fst ratios)) [0..<length ws]).
                 label (ws ! i) \<in> fst ` set ratios}"
    using concat_samples_set[of scale ws _ "sample_rnd g" ratios] by blast
  then show ?thesis by simp
qed

lemma select_random_mixture_distinct:
  "distinct (map fst ratios) \<Longrightarrow> distinct (select_random_mixture scale ws ratios g)"
proof -
  assume d: "distinct (map fst ratios)"
  have "distinct (concat (map (\<lambda>(lbl, ratio). label_sample scale ws
           (filter (\<lambda>i. label (ws ! i) \<in> set (map fst ratios)) [0..<length ws])
           (sample_rnd g) lbl ratio) ratios))"
    using d by (intro concat_samples_distinct) simp_all
  then show ?thesis
    using select_random_mixture_mset[of scale ws ratios g]
    by (metis distinct_count_atmost_1 set_mset_mset mset_eq_setD)
qed

lemma select_random_mixture_count:
  assumes "distinct (map fst ratios)" and "(l, r) \<in> set ratios"
  shows "length (filter (\<lambda>i. label (ws ! i) = l) (select_random_mixture scale ws ratios g)) =
         length (label_sample scale ws
           (filter (\<lambda>i. label (ws ! i) \<in> set (map fst ratios)) [0..<length ws])
           (sample_rnd g) l r)"
proof -
  have "mset (filter (\<lambda>i. label (ws ! i) = l) (select_random_mixture scale ws ratios g)) =
        mset (filter (\<lambda>i. label (ws ! i) = l) (concat (map (\<lambda>(lbl, ratio). label_sample scale ws
           (filter (\<lambda>i. label (ws ! i) \<in> set (map fst ratios)) [0..<length ws])
           (sample_rnd g) lbl ratio) ratios)))"
    by (simp only: mset_filter select_random_mixture_mset)
  then have "length (filter (\<lambda>i. label (ws ! i) = l) (select_random_mixture scale ws ratios g)) =
        length (filter (\<lambda>i. label (ws ! i) = l) (concat (map (\<lambda>(lbl, ratio). label_sample scale ws
           (filter (\<lambda>i. label (ws ! i) \<in> set (map fst ratios)) [0..<length ws])
           (sample_rnd g) lbl ratio) ratios)))"
    by (rule mset_eq_length)
  then show ?thesis
    using concat_samples_filter_length[OF assms] by simp
qed

section \<open>Mixture floor\<close>

text \<open>
  Claim C1. For a label that is a key of the ratios, the candidate list holds
  \<open>min(|bucket|, max(1, scale |pool| weight))\<close> words with that label, where the bucket
  is the words of the pool with the label and \<open>scale |pool| weight\<close> is
  \<open>int(len(pool) * ratio)\<close>; so it holds at least one such word when the bucket is not
  empty, whatever the weight.
\<close>

theorem mixture_floor:
  assumes "distinct (map fst ratios)" and "(l, r) \<in> set ratios"
  shows "(let pool = filter (\<lambda>i. label (ws ! i) \<in> set (map fst ratios)) [0..<length ws];
              bucket = filter (\<lambda>i. label (ws ! i) = l) pool;
              cands = select_random_mixture scale ws ratios g
          in int (length (filter (\<lambda>i. label (ws ! i) = l) cands)) =
               min (int (length bucket)) (max 1 (scale (length pool) r)) \<and>
             (bucket \<noteq> [] \<longrightarrow> (\<exists>i\<in>set cands. label (ws ! i) = l)))"
proof -
  define pool where "pool = filter (\<lambda>i. label (ws ! i) \<in> set (map fst ratios)) [0..<length ws]"
  define bucket where "bucket = filter (\<lambda>i. label (ws ! i) = l) pool"
  define cands where "cands = select_random_mixture scale ws ratios g"
  have "length (filter (\<lambda>i. label (ws ! i) = l) cands) =
        length (label_sample scale ws pool (sample_rnd g) l r)"
    unfolding cands_def pool_def by (rule select_random_mixture_count[OF assms])
  then have n: "length (filter (\<lambda>i. label (ws ! i) = l) cands) =
        nat (min (int (length bucket)) (max 1 (scale (length pool) r)))"
    by (simp add: label_sample_length bucket_def)
  have nonneg: "0 \<le> min (int (length bucket)) (max 1 (scale (length pool) r))"
    by linarith
  have cnt: "int (length (filter (\<lambda>i. label (ws ! i) = l) cands)) =
        min (int (length bucket)) (max 1 (scale (length pool) r))"
    unfolding n using nonneg by (rule nat_0_le)
  have "\<exists>i\<in>set cands. label (ws ! i) = l" if "bucket \<noteq> []"
  proof -
    have "0 < length bucket" using that by simp
    then have "0 < min (int (length bucket)) (max 1 (scale (length pool) r))"
      by linarith
    then have "0 < length (filter (\<lambda>i. label (ws ! i) = l) cands)"
      using cnt by linarith
    then have "filter (\<lambda>i. label (ws ! i) = l) cands \<noteq> []" by simp
    then show ?thesis unfolding filter_empty_conv by blast
  qed
  with cnt show ?thesis
    unfolding Let_def pool_def[symmetric] bucket_def[symmetric] cands_def[symmetric] by blast
qed

text \<open>A pool of two words and the label \<open>75%\<close> with weight 0: one word of that label
  is a candidate.\<close>

theorem mixture_floor_witness:
  "distinct (map fst [(''0%'', 6 / 10), (''75%'', 0 :: rat)]) \<and>
   (''75%'', 0) \<in> set [(''0%'', 6 / 10), (''75%'', 0 :: rat)] \<and>
   int (length (filter
     (\<lambda>i. label ([\<lparr>swedish = ''hund'', english = ''dog'', label = ''0%'',
                      category = ''animals'', seen = 0\<rparr>,
                    \<lparr>swedish = ''katt'', english = ''cat'', label = ''75%'',
                      category = ''animals'', seen = 4\<rparr>] ! i) = ''75%'')
     (select_random_mixture floor_product
        [\<lparr>swedish = ''hund'', english = ''dog'', label = ''0%'',
           category = ''animals'', seen = 0\<rparr>,
         \<lparr>swedish = ''katt'', english = ''cat'', label = ''75%'',
           category = ''animals'', seen = 4\<rparr>]
        [(''0%'', 6 / 10), (''75%'', 0)]
        \<lparr>sample_rnd = \<lambda>_ _. 0, shuffle_rnd = \<lambda>_. 0, choice_rnd = 0\<rparr>))) = 1"
proof -
  have d: "distinct (map fst [(''0%'', 6 / 10), (''75%'', 0 :: rat)])" by simp
  have m: "(''75%'', 0) \<in> set [(''0%'', 6 / 10), (''75%'', 0 :: rat)]" by simp
  show ?thesis
    using d m mixture_floor[OF d m, of
        "[\<lparr>swedish = ''hund'', english = ''dog'', label = ''0%'',
           category = ''animals'', seen = 0\<rparr>,
         \<lparr>swedish = ''katt'', english = ''cat'', label = ''75%'',
           category = ''animals'', seen = 4\<rparr>]" floor_product
        "\<lparr>sample_rnd = \<lambda>_ _. 0, shuffle_rnd = \<lambda>_. 0, choice_rnd = 0\<rparr>"]
    by (simp add: Let_def upt_rec floor_product_def)
qed

section \<open>Candidates are distinct words of the pool\<close>

text \<open>
  Claim C9. With the keys of the ratios distinct, as the keys of a dict are, the
  candidate list holds no reference twice; the words it refers to are pairwise different
  when the words of the vocabulary are; and every candidate is a word of the vocabulary
  whose label is a key of the ratios.
\<close>

theorem select_random_mixture_distinct_pool:
  assumes "distinct (map fst ratios)"
  shows "distinct (select_random_mixture scale ws ratios g) \<and>
         (distinct ws \<longrightarrow> distinct (map (\<lambda>i. ws ! i) (select_random_mixture scale ws ratios g))) \<and>
         (\<forall>i\<in>set (select_random_mixture scale ws ratios g).
            i < length ws \<and> ws ! i \<in> set ws \<and> label (ws ! i) \<in> fst ` set ratios)"
proof (intro conjI impI ballI)
  show d: "distinct (select_random_mixture scale ws ratios g)"
    using assms by (rule select_random_mixture_distinct)
  show "distinct (map (\<lambda>i. ws ! i) (select_random_mixture scale ws ratios g))" if "distinct ws"
  proof -
    have "inj_on (\<lambda>i. ws ! i) (set (select_random_mixture scale ws ratios g))"
      using that select_random_mixture_set[of _ scale ws ratios g]
      by (intro inj_on_nth) auto
    then show ?thesis using d by (simp add: distinct_map)
  qed
next
  fix i assume i: "i \<in> set (select_random_mixture scale ws ratios g)"
  show "i < length ws" using select_random_mixture_set[OF i] by simp
  then show "ws ! i \<in> set ws" by simp
  show "label (ws ! i) \<in> fst ` set ratios" using select_random_mixture_set[OF i] by simp
qed

theorem select_random_mixture_distinct_pool_witness:
  "distinct (map fst [(''0%'', 6 / 10), (''75%'', 0 :: rat)]) \<and>
   distinct [\<lparr>swedish = ''hund'', english = ''dog'', label = ''0%'',
               category = ''animals'', seen = 0\<rparr>,
             \<lparr>swedish = ''katt'', english = ''cat'', label = ''75%'',
               category = ''animals'', seen = 4\<rparr>] \<and>
   select_random_mixture floor_product
        [\<lparr>swedish = ''hund'', english = ''dog'', label = ''0%'',
           category = ''animals'', seen = 0\<rparr>,
         \<lparr>swedish = ''katt'', english = ''cat'', label = ''75%'',
           category = ''animals'', seen = 4\<rparr>]
        [(''0%'', 6 / 10), (''75%'', 0)]
        \<lparr>sample_rnd = \<lambda>_ _. 0, shuffle_rnd = \<lambda>_. 1, choice_rnd = 0\<rparr> = [1, 0] \<and>
   distinct (select_random_mixture floor_product
        [\<lparr>swedish = ''hund'', english = ''dog'', label = ''0%'',
           category = ''animals'', seen = 0\<rparr>,
         \<lparr>swedish = ''katt'', english = ''cat'', label = ''75%'',
           category = ''animals'', seen = 4\<rparr>]
        [(''0%'', 6 / 10), (''75%'', 0)]
        \<lparr>sample_rnd = \<lambda>_ _. 0, shuffle_rnd = \<lambda>_. 1, choice_rnd = 0\<rparr>)"
proof -
  have d: "distinct (map fst [(''0%'', 6 / 10), (''75%'', 0 :: rat)])" by simp
  have v: "select_random_mixture floor_product
        [\<lparr>swedish = ''hund'', english = ''dog'', label = ''0%'',
           category = ''animals'', seen = 0\<rparr>,
         \<lparr>swedish = ''katt'', english = ''cat'', label = ''75%'',
           category = ''animals'', seen = 4\<rparr>]
        [(''0%'', 6 / 10), (''75%'', 0)]
        \<lparr>sample_rnd = \<lambda>_ _. 0, shuffle_rnd = \<lambda>_. 1, choice_rnd = 0\<rparr> = [1, 0]"
    by (simp add: select_random_mixture_def label_sample_def shuffle_def floor_product_def
        Let_def upt_rec numeral_2_eq_2)
  show ?thesis
    using d v select_random_mixture_distinct_pool[OF d, of floor_product
        "[\<lparr>swedish = ''hund'', english = ''dog'', label = ''0%'',
           category = ''animals'', seen = 0\<rparr>,
         \<lparr>swedish = ''katt'', english = ''cat'', label = ''75%'',
           category = ''animals'', seen = 4\<rparr>]"
        "\<lparr>sample_rnd = \<lambda>_ _. 0, shuffle_rnd = \<lambda>_. 1, choice_rnd = 0\<rparr>"]
    by simp
qed

section \<open>Drawing a word\<close>

lemma choice_mem: "xs \<noteq> [] \<Longrightarrow> choice xs r \<in> set xs"
  by (simp add: choice_def)

lemma choice_unique:
  assumes "distinct xs" and "x \<in> set xs"
  shows "\<exists>!r. r < length xs \<and> choice xs r = x"
proof -
  obtain j where j: "j < length xs" "xs ! j = x"
    using assms(2) by (auto simp: in_set_conv_nth)
  show ?thesis
  proof (rule ex1I[of _ j])
    show "j < length xs \<and> choice xs j = x" using j by (simp add: choice_def)
  next
    fix r assume "r < length xs \<and> choice xs r = x"
    then have "r < length xs" "xs ! r = xs ! j" using j by (auto simp: choice_def)
    then show "r = j" using assms(1) j(1) by (simp add: nth_eq_iff_index_eq)
  qed
qed

lemma available_words_subset:
  "i \<in> set (available_words scale d ws ratios rs g) \<Longrightarrow>
   i \<in> set (select_random_mixture scale ws ratios g) \<and> rs (exposure d (ws ! i)) = None"
  by (simp add: available_words_def)

lemma available_words_in_range:
  "i \<in> set (available_words scale d ws ratios rs g) \<Longrightarrow> i < length ws"
  using available_words_subset select_random_mixture_set by blast

lemma available_words_distinct:
  "distinct (map fst ratios) \<Longrightarrow> distinct (available_words scale d ws ratios rs g)"
  by (simp add: available_words_def select_random_mixture_distinct)

lemma exposure_seen [simp]: "exposure d (w\<lparr>seen := n\<rparr>) = exposure d w"
  by (cases d) simp_all

lemma draw_new_word_drawn:
  assumes "avail \<noteq> []" and "\<forall>i\<in>set avail. i < length (vocabulary st)"
  shows "draw_new_word d now avail r st =
     (Drawn (choice avail r),
      st\<lparr>vocabulary := (vocabulary st)[choice avail r :=
             (vocabulary st ! choice avail r)\<lparr>seen := seen (vocabulary st ! choice avail r) + 1\<rparr>],
         stored := save_words ((vocabulary st)[choice avail r :=
             (vocabulary st ! choice avail r)\<lparr>seen := seen (vocabulary st ! choice avail r) + 1\<rparr>]),
         current_word := Some ((vocabulary st ! choice avail r)
             \<lparr>seen := seen (vocabulary st ! choice avail r) + 1\<rparr>),
         reveal := False,
         recently_seen := (recently_seen st)(exposure d (vocabulary st ! choice avail r) \<mapsto> now)\<rparr>)"
proof -
  have "choice avail r < length (vocabulary st)"
    using assms choice_mem[OF assms(1), of r] by blast
  then show ?thesis using assms(1) by (simp add: draw_new_word_def Let_def)
qed


lemma select_random_mixture_choice_rnd [simp]:
  "select_random_mixture scale ws ratios (g\<lparr>choice_rnd := r\<rparr>) =
   select_random_mixture scale ws ratios g"
  by (simp add: select_random_mixture_def)

lemma available_words_choice_rnd [simp]:
  "available_words scale d ws ratios rs (g\<lparr>choice_rnd := r\<rparr>) =
   available_words scale d ws ratios rs g"
  by (simp add: available_words_def)

lemma draw_mixed_eq:
  "draw_mixed scale d ratios now g st =
     draw_new_word d now
       (available_words scale d (vocabulary st) ratios (prune now (recently_seen st)) g)
       (choice_rnd g) (st\<lparr>recently_seen := prune now (recently_seen st)\<rparr>)"
  by (simp add: draw_mixed_def Let_def)

lemma draw_mixed_drawn:
  assumes "available_words scale d (vocabulary st) ratios (prune now (recently_seen st)) g \<noteq> []"
  shows "draw_mixed scale d ratios now g st =
    (let x = choice (available_words scale d (vocabulary st) ratios
                       (prune now (recently_seen st)) g) (choice_rnd g);
         ws = (vocabulary st)[x := (vocabulary st ! x)\<lparr>seen := seen (vocabulary st ! x) + 1\<rparr>]
     in (Drawn x,
         st\<lparr>vocabulary := ws, stored := save_words ws,
            current_word := Some ((vocabulary st ! x)\<lparr>seen := seen (vocabulary st ! x) + 1\<rparr>),
            reveal := False,
            recently_seen := (prune now (recently_seen st))(exposure d (vocabulary st ! x) \<mapsto> now)\<rparr>))"
proof -
  let ?st1 = "st\<lparr>recently_seen := prune now (recently_seen st)\<rparr>"
  let ?avail = "available_words scale d (vocabulary st) ratios (prune now (recently_seen st)) g"
  have "\<forall>i\<in>set ?avail. i < length (vocabulary ?st1)"
    using available_words_in_range by auto
  from draw_new_word_drawn[OF assms this, of d now "choice_rnd g"]
  show ?thesis by (simp add: draw_mixed_eq Let_def)
qed

lemma draw_mixed_none:
  assumes "available_words scale d (vocabulary st) ratios (prune now (recently_seen st)) g = []"
  shows "draw_mixed scale d ratios now g st =
         (NoCandidate, st\<lparr>recently_seen := prune now (recently_seen st)\<rparr>)"
  using assms by (simp add: draw_mixed_eq draw_new_word_def)

text \<open>
  Claim C5. A mixture draw whose drawable list is not empty shows one word of that
  list, the one at the position \<open>random.choice\<close> draws; every drawable word is shown for
  exactly one of the equally likely positions below the length of the list. The shown
  word has its \<open>seen\<close> raised by one, the file is the whole vocabulary after that, and
  the pruned cooldown map gains the entry that maps the word's \<open>swedish\<close> (its \<open>english\<close>
  in the English-to-Swedish mode) to the current time.
\<close>

theorem draw_mixed_success:
  assumes "distinct (map fst ratios)"
    and "available_words scale d (vocabulary st) ratios (prune now (recently_seen st)) g \<noteq> []"
  shows "(\<exists>x\<in>set (available_words scale d (vocabulary st) ratios (prune now (recently_seen st)) g).
           fst (draw_mixed scale d ratios now g st) = Drawn x \<and>
           seen (vocabulary (snd (draw_mixed scale d ratios now g st)) ! x) =
             seen (vocabulary st ! x) + 1 \<and>
           stored (snd (draw_mixed scale d ratios now g st)) =
             save_words (vocabulary (snd (draw_mixed scale d ratios now g st))) \<and>
           recently_seen (snd (draw_mixed scale d ratios now g st)) =
             (prune now (recently_seen st))(exposure d (vocabulary st ! x) \<mapsto> now)) \<and>
         (\<forall>y\<in>set (available_words scale d (vocabulary st) ratios (prune now (recently_seen st)) g).
           \<exists>!r. r < length (available_words scale d (vocabulary st) ratios
                              (prune now (recently_seen st)) g) \<and>
                fst (draw_mixed scale d ratios now (g\<lparr>choice_rnd := r\<rparr>) st) = Drawn y)"
proof (rule conjI)
  let ?avail = "available_words scale d (vocabulary st) ratios (prune now (recently_seen st)) g"
  let ?x = "choice ?avail (choice_rnd g)"
  have mem: "?x \<in> set ?avail" using assms(2) by (rule choice_mem)
  then have len: "?x < length (vocabulary st)" by (rule available_words_in_range)
  show "\<exists>x\<in>set ?avail.
           fst (draw_mixed scale d ratios now g st) = Drawn x \<and>
           seen (vocabulary (snd (draw_mixed scale d ratios now g st)) ! x) =
             seen (vocabulary st ! x) + 1 \<and>
           stored (snd (draw_mixed scale d ratios now g st)) =
             save_words (vocabulary (snd (draw_mixed scale d ratios now g st))) \<and>
           recently_seen (snd (draw_mixed scale d ratios now g st)) =
             (prune now (recently_seen st))(exposure d (vocabulary st ! x) \<mapsto> now)"
    using mem len by (intro bexI[of _ ?x]) (simp_all add: draw_mixed_drawn[OF assms(2)] Let_def)
  show "\<forall>y\<in>set ?avail. \<exists>!r. r < length ?avail \<and>
          fst (draw_mixed scale d ratios now (g\<lparr>choice_rnd := r\<rparr>) st) = Drawn y"
  proof
    fix y assume y: "y \<in> set ?avail"
    have d: "distinct ?avail" using assms(1) by (rule available_words_distinct)
    have "\<And>r. fst (draw_mixed scale d ratios now (g\<lparr>choice_rnd := r\<rparr>) st) = Drawn (choice ?avail r)"
      using assms(2) by (simp add: draw_mixed_drawn Let_def)
    then show "\<exists>!r. r < length ?avail \<and>
          fst (draw_mixed scale d ratios now (g\<lparr>choice_rnd := r\<rparr>) st) = Drawn y"
      using choice_unique[OF d y] by simp
  qed
qed

lemma ex_available:
  "available_words floor_product SwedishToEnglish
        [\<lparr>swedish = ''hund'', english = ''dog'', label = ''0%'',
           category = ''animals'', seen = 0\<rparr>,
         \<lparr>swedish = ''katt'', english = ''cat'', label = ''75%'',
           category = ''animals'', seen = 4\<rparr>]
        [(''0%'', 6 / 10), (''75%'', 0)] (prune 1000 Map.empty)
        \<lparr>sample_rnd = \<lambda>_ _. 0, shuffle_rnd = \<lambda>_. 1, choice_rnd = 0\<rparr> = [1, 0]"
  by (simp add: available_words_def prune_def select_random_mixture_def label_sample_def
      shuffle_def floor_product_def Let_def upt_rec numeral_2_eq_2)

theorem draw_mixed_success_witness:
  "distinct (map fst [(''0%'', 6 / 10), (''75%'', 0 :: rat)]) \<and>
   available_words floor_product SwedishToEnglish
        [\<lparr>swedish = ''hund'', english = ''dog'', label = ''0%'',
           category = ''animals'', seen = 0\<rparr>,
         \<lparr>swedish = ''katt'', english = ''cat'', label = ''75%'',
           category = ''animals'', seen = 4\<rparr>]
        [(''0%'', 6 / 10), (''75%'', 0)] (prune 1000 Map.empty)
        \<lparr>sample_rnd = \<lambda>_ _. 0, shuffle_rnd = \<lambda>_. 1, choice_rnd = 0\<rparr> = [1, 0] \<and>
   fst (draw_mixed floor_product SwedishToEnglish [(''0%'', 6 / 10), (''75%'', 0)] 1000
        \<lparr>sample_rnd = \<lambda>_ _. 0, shuffle_rnd = \<lambda>_. 1, choice_rnd = 0\<rparr>
        \<lparr>vocabulary = [\<lparr>swedish = ''hund'', english = ''dog'', label = ''0%'',
                          category = ''animals'', seen = 0\<rparr>,
                        \<lparr>swedish = ''katt'', english = ''cat'', label = ''75%'',
                          category = ''animals'', seen = 4\<rparr>],
          stored = Missing, recently_seen = Map.empty, current_word = None,
          reveal = False\<rparr>) = Drawn 1 \<and>
   seen (vocabulary (snd (draw_mixed floor_product SwedishToEnglish
        [(''0%'', 6 / 10), (''75%'', 0)] 1000
        \<lparr>sample_rnd = \<lambda>_ _. 0, shuffle_rnd = \<lambda>_. 1, choice_rnd = 0\<rparr>
        \<lparr>vocabulary = [\<lparr>swedish = ''hund'', english = ''dog'', label = ''0%'',
                          category = ''animals'', seen = 0\<rparr>,
                        \<lparr>swedish = ''katt'', english = ''cat'', label = ''75%'',
                          category = ''animals'', seen = 4\<rparr>],
          stored = Missing, recently_seen = Map.empty, current_word = None,
          reveal = False\<rparr>)) ! 1) = 5 \<and>
   recently_seen (snd (draw_mixed floor_product SwedishToEnglish
        [(''0%'', 6 / 10), (''75%'', 0)] 1000
        \<lparr>sample_rnd = \<lambda>_ _. 0, shuffle_rnd = \<lambda>_. 1, choice_rnd = 0\<rparr>
        \<lparr>vocabulary = [\<lparr>swedish = ''hund'', english = ''dog'', label = ''0%'',
                          category = ''animals'', seen = 0\<rparr>,
                        \<lparr>swedish = ''katt'', english = ''cat'', label = ''75%'',
                          category = ''animals'', seen = 4\<rparr>],
          stored = Missing, recently_seen = Map.empty, current_word = None,
          reveal = False\<rparr>)) ''katt'' = Some 1000"
proof -
  let ?ws = "[\<lparr>swedish = ''hund'', english = ''dog'', label = ''0%'',
                category = ''animals'', seen = 0\<rparr>,
              \<lparr>swedish = ''katt'', english = ''cat'', label = ''75%'',
                category = ''animals'', seen = 4\<rparr>]"
  let ?st = "\<lparr>vocabulary = ?ws, stored = Missing, recently_seen = Map.empty,
              current_word = None, reveal = False\<rparr>"
  let ?g = "\<lparr>sample_rnd = \<lambda>_ _. 0, shuffle_rnd = \<lambda>_. 1, choice_rnd = 0\<rparr>"
  have d: "distinct (map fst [(''0%'', 6 / 10), (''75%'', 0 :: rat)])" by simp
  have a: "available_words floor_product SwedishToEnglish (vocabulary ?st)
             [(''0%'', 6 / 10), (''75%'', 0)] (prune 1000 (recently_seen ?st)) ?g \<noteq> []"
    using ex_available by simp
  note t = draw_mixed_success[OF d a, THEN conjunct1]
  have ch: "choice [1, 0 :: nat] 0 = 1" by (simp add: choice_def)
  have dr: "fst (draw_mixed floor_product SwedishToEnglish [(''0%'', 6 / 10), (''75%'', 0)]
               1000 ?g ?st) = Drawn 1"
    using ex_available ch by (simp add: draw_mixed_eq draw_new_word_def Let_def)
  from t dr d ex_available show ?thesis
    by auto
qed

section \<open>Exhaustion\<close>

lemma prune_Some:
  "prune now rs k = Some t \<longleftrightarrow> rs k = Some t \<and> now - t < COOLDOWN_SECONDS"
  by (auto simp: prune_def split: option.splits)

lemma prune_None:
  "prune now rs k = None \<longleftrightarrow> (\<forall>t. rs k = Some t \<longrightarrow> \<not> now - t < COOLDOWN_SECONDS)"
  by (auto simp: prune_def split: option.splits)

text \<open>
  Claim C6. When no word is drawable, that is, every candidate of the mixture has its
  exposure identity in the pruned cooldown map, the press of the draw button yields the
  warning and no error, and the handler changes nothing: the vocabulary with every
  \<open>seen\<close>, the file, and the cooldown map it found are as before. The map it found is
  the one the page pruned before computing the drawable words: it has lost the entries
  older than the window, kept every other entry, and gained none.
\<close>

theorem draw_mixed_exhausted:
  assumes "available_words scale d (vocabulary st) ratios (prune now (recently_seen st)) g = []"
  shows "draw_mixed scale d ratios now g st =
           (NoCandidate, st\<lparr>recently_seen := prune now (recently_seen st)\<rparr>) \<and>
         draw_new_word d now
           (available_words scale d (vocabulary st) ratios (prune now (recently_seen st)) g)
           (choice_rnd g) (st\<lparr>recently_seen := prune now (recently_seen st)\<rparr>) =
           (NoCandidate, st\<lparr>recently_seen := prune now (recently_seen st)\<rparr>) \<and>
         vocabulary (snd (draw_mixed scale d ratios now g st)) = vocabulary st \<and>
         stored (snd (draw_mixed scale d ratios now g st)) = stored st \<and>
         (\<forall>k t. recently_seen (snd (draw_mixed scale d ratios now g st)) k = Some t \<longleftrightarrow>
                recently_seen st k = Some t \<and> now - t < COOLDOWN_SECONDS)"
  using assms by (simp add: draw_mixed_none draw_new_word_def prune_Some)

lemma ex_cooling:
  "available_words floor_product SwedishToEnglish
        [\<lparr>swedish = ''hund'', english = ''dog'', label = ''0%'',
           category = ''animals'', seen = 0\<rparr>,
         \<lparr>swedish = ''katt'', english = ''cat'', label = ''75%'',
           category = ''animals'', seen = 4\<rparr>]
        [(''0%'', 6 / 10), (''75%'', 0)]
        (prune 1100 [''hund'' \<mapsto> 1000, ''katt'' \<mapsto> 1050])
        \<lparr>sample_rnd = \<lambda>_ _. 0, shuffle_rnd = \<lambda>_. 1, choice_rnd = 0\<rparr> = []"
  by (simp add: available_words_def prune_def COOLDOWN_SECONDS_def select_random_mixture_def
      label_sample_def shuffle_def floor_product_def Let_def upt_rec numeral_2_eq_2)

theorem draw_mixed_exhausted_witness:
  "available_words floor_product SwedishToEnglish
        [\<lparr>swedish = ''hund'', english = ''dog'', label = ''0%'',
           category = ''animals'', seen = 0\<rparr>,
         \<lparr>swedish = ''katt'', english = ''cat'', label = ''75%'',
           category = ''animals'', seen = 4\<rparr>]
        [(''0%'', 6 / 10), (''75%'', 0)]
        (prune 1100 [''hund'' \<mapsto> 1000, ''katt'' \<mapsto> 1050])
        \<lparr>sample_rnd = \<lambda>_ _. 0, shuffle_rnd = \<lambda>_. 1, choice_rnd = 0\<rparr> = [] \<and>
   fst (draw_mixed floor_product SwedishToEnglish [(''0%'', 6 / 10), (''75%'', 0)] 1100
        \<lparr>sample_rnd = \<lambda>_ _. 0, shuffle_rnd = \<lambda>_. 1, choice_rnd = 0\<rparr>
        \<lparr>vocabulary = [\<lparr>swedish = ''hund'', english = ''dog'', label = ''0%'',
                          category = ''animals'', seen = 0\<rparr>,
                        \<lparr>swedish = ''katt'', english = ''cat'', label = ''75%'',
                          category = ''animals'', seen = 4\<rparr>],
          stored = Missing, recently_seen = [''hund'' \<mapsto> 1000, ''katt'' \<mapsto> 1050],
          current_word = None, reveal = False\<rparr>) = NoCandidate \<and>
   vocabulary (snd (draw_mixed floor_product SwedishToEnglish
        [(''0%'', 6 / 10), (''75%'', 0)] 1100
        \<lparr>sample_rnd = \<lambda>_ _. 0, shuffle_rnd = \<lambda>_. 1, choice_rnd = 0\<rparr>
        \<lparr>vocabulary = [\<lparr>swedish = ''hund'', english = ''dog'', label = ''0%'',
                          category = ''animals'', seen = 0\<rparr>,
                        \<lparr>swedish = ''katt'', english = ''cat'', label = ''75%'',
                          category = ''animals'', seen = 4\<rparr>],
          stored = Missing, recently_seen = [''hund'' \<mapsto> 1000, ''katt'' \<mapsto> 1050],
          current_word = None, reveal = False\<rparr>)) =
     [\<lparr>swedish = ''hund'', english = ''dog'', label = ''0%'', category = ''animals'', seen = 0\<rparr>,
      \<lparr>swedish = ''katt'', english = ''cat'', label = ''75%'', category = ''animals'', seen = 4\<rparr>]"
proof -
  let ?ws = "[\<lparr>swedish = ''hund'', english = ''dog'', label = ''0%'',
                category = ''animals'', seen = 0\<rparr>,
              \<lparr>swedish = ''katt'', english = ''cat'', label = ''75%'',
                category = ''animals'', seen = 4\<rparr>]"
  let ?st = "\<lparr>vocabulary = ?ws, stored = Missing,
              recently_seen = [''hund'' \<mapsto> 1000, ''katt'' \<mapsto> 1050],
              current_word = None, reveal = False\<rparr>"
  let ?g = "\<lparr>sample_rnd = \<lambda>_ _. 0, shuffle_rnd = \<lambda>_. 1, choice_rnd = 0\<rparr>"
  have a: "available_words floor_product SwedishToEnglish (vocabulary ?st)
             [(''0%'', 6 / 10), (''75%'', 0)] (prune 1100 (recently_seen ?st)) ?g = []"
    using ex_cooling by simp
  from draw_mixed_exhausted[OF a] ex_cooling show ?thesis
    by simp
qed

section \<open>Drawing by category\<close>

lemma category_filter_set:
  "set (filter (\<lambda>i. category (ws ! i) = c) [0..<length ws]) =
     {i. i < length ws \<and> category (ws ! i) = c}"
  by auto

lemma draw_by_category_drawn:
  assumes "filter (\<lambda>i. category (vocabulary st ! i) = c) [0..<length (vocabulary st)] \<noteq> []"
  shows "draw_by_category c r st =
    (let x = choice (filter (\<lambda>i. category (vocabulary st ! i) = c)
                       [0..<length (vocabulary st)]) r;
         ws = (vocabulary st)[x := (vocabulary st ! x)\<lparr>seen := seen (vocabulary st ! x) + 1\<rparr>]
     in (Drawn x,
         st\<lparr>current_word := Some ((vocabulary st ! x)\<lparr>seen := seen (vocabulary st ! x) + 1\<rparr>),
            reveal := False, vocabulary := ws, stored := save_words ws\<rparr>))"
proof -
  let ?f = "filter (\<lambda>i. category (vocabulary st ! i) = c) [0..<length (vocabulary st)]"
  have "choice ?f r \<in> set ?f" using assms by (rule choice_mem)
  then have "choice ?f r < length (vocabulary st)" by simp
  then show ?thesis using assms by (simp add: draw_by_category_def Let_def)
qed

text \<open>
  Claim C8. The category draw looks only at the words whose \<open>category\<close> equals the
  selected one: neither the ratios nor the cooldown map are arguments of it, and it
  leaves the cooldown map as it is. When there is such a word it shows one of them, the
  one at the position \<open>random.choice\<close> draws, and each of them is shown for exactly one
  position below their number; the shown word has its \<open>seen\<close> raised by one and the file
  is the whole vocabulary after that. When there is none it yields the warning and
  changes nothing.
\<close>

theorem draw_by_category_scoped:
  "((\<exists>i<length (vocabulary st). category (vocabulary st ! i) = c) \<longrightarrow>
      (\<exists>x<length (vocabulary st).
         category (vocabulary st ! x) = c \<and>
         draw_by_category c r st =
           (Drawn x,
            st\<lparr>current_word := Some ((vocabulary st ! x)\<lparr>seen := seen (vocabulary st ! x) + 1\<rparr>),
               reveal := False,
               vocabulary := (vocabulary st)
                 [x := (vocabulary st ! x)\<lparr>seen := seen (vocabulary st ! x) + 1\<rparr>],
               stored := save_words ((vocabulary st)
                 [x := (vocabulary st ! x)\<lparr>seen := seen (vocabulary st ! x) + 1\<rparr>])\<rparr>) \<and>
         recently_seen (snd (draw_by_category c r st)) = recently_seen st) \<and>
      (\<forall>y<length (vocabulary st). category (vocabulary st ! y) = c \<longrightarrow>
         (\<exists>!q. q < card {i. i < length (vocabulary st) \<and> category (vocabulary st ! i) = c} \<and>
               fst (draw_by_category c q st) = Drawn y))) \<and>
   (\<not> (\<exists>i<length (vocabulary st). category (vocabulary st ! i) = c) \<longrightarrow>
      draw_by_category c r st = (NoCandidate, st))"
proof (intro conjI impI)
  let ?ws = "vocabulary st"
  let ?f = "filter (\<lambda>i. category (?ws ! i) = c) [0..<length ?ws]"
  assume ex: "\<exists>i<length ?ws. category (?ws ! i) = c"
  then have ne: "?f \<noteq> []" by (auto simp: filter_empty_conv)
  have mem: "choice ?f r \<in> set ?f" using ne by (rule choice_mem)
  show "\<exists>x<length ?ws. category (?ws ! x) = c \<and>
         draw_by_category c r st =
           (Drawn x,
            st\<lparr>current_word := Some ((?ws ! x)\<lparr>seen := seen (?ws ! x) + 1\<rparr>),
               reveal := False,
               vocabulary := ?ws[x := (?ws ! x)\<lparr>seen := seen (?ws ! x) + 1\<rparr>],
               stored := save_words (?ws[x := (?ws ! x)\<lparr>seen := seen (?ws ! x) + 1\<rparr>])\<rparr>) \<and>
         recently_seen (snd (draw_by_category c r st)) = recently_seen st"
    using mem by (intro exI[of _ "choice ?f r"]) (simp add: draw_by_category_drawn[OF ne] Let_def)
  show "\<forall>y<length ?ws. category (?ws ! y) = c \<longrightarrow>
         (\<exists>!q. q < card {i. i < length ?ws \<and> category (?ws ! i) = c} \<and>
               fst (draw_by_category c q st) = Drawn y)"
  proof (intro allI impI)
    fix y assume "y < length ?ws" and "category (?ws ! y) = c"
    then have y: "y \<in> set ?f" by simp
    have d: "distinct ?f" by simp
    have "card (set ?f) = length ?f" using d by (rule distinct_card)
    then have card: "card {i. i < length ?ws \<and> category (?ws ! i) = c} = length ?f"
      by (simp only: category_filter_set)
    have "\<And>q. fst (draw_by_category c q st) = Drawn (choice ?f q)"
      by (simp add: draw_by_category_drawn[OF ne] Let_def)
    then show "\<exists>!q. q < card {i. i < length ?ws \<and> category (?ws ! i) = c} \<and>
               fst (draw_by_category c q st) = Drawn y"
      using choice_unique[OF d y] unfolding card by simp
  qed
next
  assume "\<not> (\<exists>i<length (vocabulary st). category (vocabulary st ! i) = c)"
  then have "filter (\<lambda>i. category (vocabulary st ! i) = c) [0..<length (vocabulary st)] = []"
    by (auto simp: filter_empty_conv)
  then show "draw_by_category c r st = (NoCandidate, st)"
    by (simp add: draw_by_category_def Let_def)
qed

theorem draw_by_category_scoped_witness:
  "fst (draw_by_category ''animals'' 1
        \<lparr>vocabulary = [\<lparr>swedish = ''hund'', english = ''dog'', label = ''0%'',
                          category = ''animals'', seen = 0\<rparr>,
                        \<lparr>swedish = ''stol'', english = ''chair'', label = ''0%'',
                          category = ''at home'', seen = 2\<rparr>,
                        \<lparr>swedish = ''katt'', english = ''cat'', label = ''75%'',
                          category = ''animals'', seen = 4\<rparr>],
          stored = Missing, recently_seen = [''katt'' \<mapsto> 1000],
          current_word = None, reveal = False\<rparr>) = Drawn 2 \<and>
   recently_seen (snd (draw_by_category ''animals'' 1
        \<lparr>vocabulary = [\<lparr>swedish = ''hund'', english = ''dog'', label = ''0%'',
                          category = ''animals'', seen = 0\<rparr>,
                        \<lparr>swedish = ''stol'', english = ''chair'', label = ''0%'',
                          category = ''at home'', seen = 2\<rparr>,
                        \<lparr>swedish = ''katt'', english = ''cat'', label = ''75%'',
                          category = ''animals'', seen = 4\<rparr>],
          stored = Missing, recently_seen = [''katt'' \<mapsto> 1000],
          current_word = None, reveal = False\<rparr>)) = [''katt'' \<mapsto> 1000] \<and>
   draw_by_category ''in town'' 1
        \<lparr>vocabulary = [\<lparr>swedish = ''hund'', english = ''dog'', label = ''0%'',
                          category = ''animals'', seen = 0\<rparr>,
                        \<lparr>swedish = ''stol'', english = ''chair'', label = ''0%'',
                          category = ''at home'', seen = 2\<rparr>,
                        \<lparr>swedish = ''katt'', english = ''cat'', label = ''75%'',
                          category = ''animals'', seen = 4\<rparr>],
          stored = Missing, recently_seen = [''katt'' \<mapsto> 1000],
          current_word = None, reveal = False\<rparr> =
     (NoCandidate,
        \<lparr>vocabulary = [\<lparr>swedish = ''hund'', english = ''dog'', label = ''0%'',
                          category = ''animals'', seen = 0\<rparr>,
                        \<lparr>swedish = ''stol'', english = ''chair'', label = ''0%'',
                          category = ''at home'', seen = 2\<rparr>,
                        \<lparr>swedish = ''katt'', english = ''cat'', label = ''75%'',
                          category = ''animals'', seen = 4\<rparr>],
          stored = Missing, recently_seen = [''katt'' \<mapsto> 1000],
          current_word = None, reveal = False\<rparr>)"
proof -
  let ?ws = "[\<lparr>swedish = ''hund'', english = ''dog'', label = ''0%'',
                          category = ''animals'', seen = 0\<rparr>,
                        \<lparr>swedish = ''stol'', english = ''chair'', label = ''0%'',
                          category = ''at home'', seen = 2\<rparr>,
                        \<lparr>swedish = ''katt'', english = ''cat'', label = ''75%'',
                          category = ''animals'', seen = 4\<rparr>]"
  let ?st = "\<lparr>vocabulary = ?ws, stored = Missing, recently_seen = [''katt'' \<mapsto> 1000],
          current_word = None, reveal = False\<rparr>"
  have "\<forall>w\<in>set ?ws. category w \<noteq> ''in town''" by simp
  then have nn: "\<forall>i<length ?ws. category (?ws ! i) \<noteq> ''in town''"
    unfolding all_set_conv_all_nth by blast
  have vs: "vocabulary ?st = ?ws" by simp
  have none: "\<not> (\<exists>i<length (vocabulary ?st). category (vocabulary ?st ! i) = ''in town'')"
    unfolding vs using nn by blast
  have some: "\<exists>i<length (vocabulary ?st). category (vocabulary ?st ! i) = ''animals''"
    by (intro exI[of _ 0]) simp
  have dr: "fst (draw_by_category ''animals'' 1 ?st) = Drawn 2"
    by (simp add: draw_by_category_def choice_def Let_def upt_conv_Cons)
  note a = draw_by_category_scoped[of ?st "''in town''" 1, THEN conjunct2, THEN mp, OF none]
  note b0 = draw_by_category_scoped[of ?st "''animals''" 1, THEN conjunct1, THEN mp, OF some,
      THEN conjunct1]
  from b0 have b: "recently_seen (snd (draw_by_category ''animals'' 1 ?st)) = recently_seen ?st"
    by (elim exE conjE)
  from a b dr show ?thesis by simp
qed

section \<open>Frame condition of the draws\<close>

lemma draw_mixed_Drawn_cases:
  assumes "draw_mixed scale d ratios now g st = (Drawn x, st')"
  shows "x < length (vocabulary st) \<and>
         vocabulary st' = (vocabulary st)[x := (vocabulary st ! x)\<lparr>seen := seen (vocabulary st ! x) + 1\<rparr>] \<and>
         recently_seen st' = (prune now (recently_seen st))(exposure d (vocabulary st ! x) \<mapsto> now) \<and>
         x \<in> set (available_words scale d (vocabulary st) ratios (prune now (recently_seen st)) g)"
proof (cases "available_words scale d (vocabulary st) ratios (prune now (recently_seen st)) g = []")
  case True
  then show ?thesis using assms by (simp add: draw_mixed_none)
next
  case False
  let ?avail = "available_words scale d (vocabulary st) ratios (prune now (recently_seen st)) g"
  have mem: "choice ?avail (choice_rnd g) \<in> set ?avail" using False by (rule choice_mem)
  have x: "x = choice ?avail (choice_rnd g)"
    using assms by (simp add: draw_mixed_drawn[OF False] Let_def)
  have st': "st' = snd (draw_mixed scale d ratios now g st)" using assms by simp
  show ?thesis
    using mem available_words_in_range[OF mem]
    unfolding st' x by (simp add: draw_mixed_drawn[OF False] Let_def)
qed

lemma draw_by_category_Drawn_cases:
  assumes "draw_by_category c r st = (Drawn x, st')"
  shows "x < length (vocabulary st) \<and>
         vocabulary st' = (vocabulary st)[x := (vocabulary st ! x)\<lparr>seen := seen (vocabulary st ! x) + 1\<rparr>]"
proof (cases "filter (\<lambda>i. category (vocabulary st ! i) = c) [0..<length (vocabulary st)] = []")
  case True
  then show ?thesis using assms by (simp add: draw_by_category_def Let_def)
next
  case False
  let ?f = "filter (\<lambda>i. category (vocabulary st ! i) = c) [0..<length (vocabulary st)]"
  have "choice ?f r \<in> set ?f" using False by (rule choice_mem)
  then have len: "choice ?f r < length (vocabulary st)" by simp
  have x: "x = choice ?f r"
    using assms by (simp add: draw_by_category_drawn[OF False] Let_def)
  have st': "st' = snd (draw_by_category c r st)" using assms by simp
  show ?thesis
    using len unfolding st' x by (simp add: draw_by_category_drawn[OF False] Let_def)
qed

text \<open>
  Claim C10. A mixture draw and a category draw that show the word at position \<open>x\<close>
  leave the vocabulary with the same length and order; every word at another position
  is the same word as before, and the word at \<open>x\<close> differs from the old one in \<open>seen\<close>
  only: \<open>swedish\<close>, \<open>english\<close>, \<open>category\<close> and \<open>label\<close> are kept.
\<close>

theorem draw_frame:
  "(draw_mixed scale d ratios now g st = (Drawn x, st') \<or>
    draw_by_category c r st = (Drawn x, st')) \<longrightarrow>
     length (vocabulary st') = length (vocabulary st) \<and>
     x < length (vocabulary st) \<and>
     (\<forall>i<length (vocabulary st). i \<noteq> x \<longrightarrow> vocabulary st' ! i = vocabulary st ! i) \<and>
     vocabulary st' ! x = (vocabulary st ! x)\<lparr>seen := seen (vocabulary st ! x) + 1\<rparr> \<and>
     swedish (vocabulary st' ! x) = swedish (vocabulary st ! x) \<and>
     english (vocabulary st' ! x) = english (vocabulary st ! x) \<and>
     category (vocabulary st' ! x) = category (vocabulary st ! x) \<and>
     label (vocabulary st' ! x) = label (vocabulary st ! x)"
proof
  assume "draw_mixed scale d ratios now g st = (Drawn x, st') \<or>
          draw_by_category c r st = (Drawn x, st')"
  then have "x < length (vocabulary st) \<and>
    vocabulary st' = (vocabulary st)[x := (vocabulary st ! x)\<lparr>seen := seen (vocabulary st ! x) + 1\<rparr>]"
    using draw_mixed_Drawn_cases draw_by_category_Drawn_cases by blast
  then show "length (vocabulary st') = length (vocabulary st) \<and>
     x < length (vocabulary st) \<and>
     (\<forall>i<length (vocabulary st). i \<noteq> x \<longrightarrow> vocabulary st' ! i = vocabulary st ! i) \<and>
     vocabulary st' ! x = (vocabulary st ! x)\<lparr>seen := seen (vocabulary st ! x) + 1\<rparr> \<and>
     swedish (vocabulary st' ! x) = swedish (vocabulary st ! x) \<and>
     english (vocabulary st' ! x) = english (vocabulary st ! x) \<and>
     category (vocabulary st' ! x) = category (vocabulary st ! x) \<and>
     label (vocabulary st' ! x) = label (vocabulary st ! x)"
    by simp
qed


theorem draw_frame_witness:
  "fst (draw_mixed floor_product SwedishToEnglish [(''0%'', 6 / 10), (''75%'', 0)] 1000
        \<lparr>sample_rnd = \<lambda>_ _. 0, shuffle_rnd = \<lambda>_. 1, choice_rnd = 0\<rparr>
        \<lparr>vocabulary = [\<lparr>swedish = ''hund'', english = ''dog'', label = ''0%'',
                          category = ''animals'', seen = 0\<rparr>,
                        \<lparr>swedish = ''katt'', english = ''cat'', label = ''75%'',
                          category = ''animals'', seen = 4\<rparr>],
          stored = Missing, recently_seen = Map.empty, current_word = None,
          reveal = False\<rparr>) = Drawn 1 \<and>
   vocabulary (snd (draw_mixed floor_product SwedishToEnglish
        [(''0%'', 6 / 10), (''75%'', 0)] 1000
        \<lparr>sample_rnd = \<lambda>_ _. 0, shuffle_rnd = \<lambda>_. 1, choice_rnd = 0\<rparr>
        \<lparr>vocabulary = [\<lparr>swedish = ''hund'', english = ''dog'', label = ''0%'',
                          category = ''animals'', seen = 0\<rparr>,
                        \<lparr>swedish = ''katt'', english = ''cat'', label = ''75%'',
                          category = ''animals'', seen = 4\<rparr>],
          stored = Missing, recently_seen = Map.empty, current_word = None,
          reveal = False\<rparr>)) ! 0 =
     \<lparr>swedish = ''hund'', english = ''dog'', label = ''0%'', category = ''animals'', seen = 0\<rparr> \<and>
   vocabulary (snd (draw_mixed floor_product SwedishToEnglish
        [(''0%'', 6 / 10), (''75%'', 0)] 1000
        \<lparr>sample_rnd = \<lambda>_ _. 0, shuffle_rnd = \<lambda>_. 1, choice_rnd = 0\<rparr>
        \<lparr>vocabulary = [\<lparr>swedish = ''hund'', english = ''dog'', label = ''0%'',
                          category = ''animals'', seen = 0\<rparr>,
                        \<lparr>swedish = ''katt'', english = ''cat'', label = ''75%'',
                          category = ''animals'', seen = 4\<rparr>],
          stored = Missing, recently_seen = Map.empty, current_word = None,
          reveal = False\<rparr>)) ! 1 =
     \<lparr>swedish = ''katt'', english = ''cat'', label = ''75%'', category = ''animals'', seen = 5\<rparr> \<and>
   fst (draw_by_category ''animals'' 0
        \<lparr>vocabulary = [\<lparr>swedish = ''hund'', english = ''dog'', label = ''0%'',
                          category = ''animals'', seen = 0\<rparr>,
                        \<lparr>swedish = ''katt'', english = ''cat'', label = ''75%'',
                          category = ''animals'', seen = 4\<rparr>],
          stored = Missing, recently_seen = Map.empty, current_word = None,
          reveal = False\<rparr>) = Drawn 0 \<and>
   vocabulary (snd (draw_by_category ''animals'' 0
        \<lparr>vocabulary = [\<lparr>swedish = ''hund'', english = ''dog'', label = ''0%'',
                          category = ''animals'', seen = 0\<rparr>,
                        \<lparr>swedish = ''katt'', english = ''cat'', label = ''75%'',
                          category = ''animals'', seen = 4\<rparr>],
          stored = Missing, recently_seen = Map.empty, current_word = None,
          reveal = False\<rparr>)) ! 1 =
     \<lparr>swedish = ''katt'', english = ''cat'', label = ''75%'', category = ''animals'', seen = 4\<rparr>"
proof -
  let ?ws = "[\<lparr>swedish = ''hund'', english = ''dog'', label = ''0%'',
                category = ''animals'', seen = 0\<rparr>,
              \<lparr>swedish = ''katt'', english = ''cat'', label = ''75%'',
                category = ''animals'', seen = 4\<rparr>]"
  let ?st = "\<lparr>vocabulary = ?ws, stored = Missing, recently_seen = Map.empty,
              current_word = None, reveal = False\<rparr>"
  let ?g = "\<lparr>sample_rnd = \<lambda>_ _. 0, shuffle_rnd = \<lambda>_. 1, choice_rnd = 0\<rparr>"
  let ?rs = "[(''0%'', 6 / 10), (''75%'', 0 :: rat)]"
  let ?m = "draw_mixed floor_product SwedishToEnglish ?rs 1000 ?g ?st"
  let ?c = "draw_by_category ''animals'' 0 ?st"
  have ch: "choice [1, 0 :: nat] 0 = 1" by (simp add: choice_def)
  have dm: "fst ?m = Drawn 1"
    using ex_available ch by (simp add: draw_mixed_eq draw_new_word_def Let_def)
  have dc: "fst ?c = Drawn 0"
    by (simp add: draw_by_category_def choice_def Let_def upt_conv_Cons)
  have em: "?m = (Drawn 1, snd ?m)" using dm by (simp add: prod_eq_iff)
  have ec: "?c = (Drawn 0, snd ?c)" using dc by (simp add: prod_eq_iff)
  note tm = draw_frame[of floor_product SwedishToEnglish ?rs 1000 ?g ?st 1 "snd ?m"
      "''animals''" 0, THEN mp, OF disjI1, OF em]
  note tc = draw_frame[of floor_product SwedishToEnglish ?rs 1000 ?g ?st 0 "snd ?c"
      "''animals''" 0, THEN mp, OF disjI2, OF ec]
  note m0 = tm[THEN conjunct2, THEN conjunct2, THEN conjunct1, rule_format, of 0]
  note m1 = tm[THEN conjunct2, THEN conjunct2, THEN conjunct2, THEN conjunct1]
  note c1 = tc[THEN conjunct2, THEN conjunct2, THEN conjunct1, rule_format, of 1]
  from m0 m1 c1 dm dc show ?thesis by simp
qed

section \<open>Cooldown\<close>

text \<open>
  Claim C2. After a mixture draw at time \<open>T\<close> has shown the word at position \<open>x\<close>, a
  mixture draw in the same direction at any time before \<open>T + COOLDOWN_SECONDS\<close> keeps
  the entry of that word through the pruning, so the word is not drawable and the draw
  does not show it, whatever the ratios and the random draws. At
  \<open>T + COOLDOWN_SECONDS\<close> and later the entry is pruned, and the word is drawable
  exactly when it is a candidate of the mixture.
\<close>

theorem cooldown_correct:
  assumes "draw_mixed scale d ratios T g st = (Drawn x, st')"
  shows "(\<forall>now ratios' g'. now < T + COOLDOWN_SECONDS \<longrightarrow>
            prune now (recently_seen st') (exposure d (vocabulary st' ! x)) = Some T \<and>
            x \<notin> set (available_words scale d (vocabulary st') ratios'
                        (prune now (recently_seen st')) g') \<and>
            fst (draw_mixed scale d ratios' now g' st') \<noteq> Drawn x) \<and>
         (\<forall>now ratios' g'. T + COOLDOWN_SECONDS \<le> now \<longrightarrow>
            prune now (recently_seen st') (exposure d (vocabulary st' ! x)) = None \<and>
            (x \<in> set (available_words scale d (vocabulary st') ratios'
                        (prune now (recently_seen st')) g') \<longleftrightarrow>
             x \<in> set (select_random_mixture scale (vocabulary st') ratios' g')))"
proof -
  note c = draw_mixed_Drawn_cases[OF assms]
  have x: "x < length (vocabulary st)" using c by simp
  have e: "exposure d (vocabulary st' ! x) = exposure d (vocabulary st ! x)"
    using c by simp
  have stamp: "recently_seen st' (exposure d (vocabulary st' ! x)) = Some T"
    using c unfolding e by simp
  show ?thesis
  proof (intro conjI allI impI)
    fix now :: real and ratios' :: "(string \<times> 'a) list" and g' :: rng
    assume before: "now < T + COOLDOWN_SECONDS"
    then have "now - T < COOLDOWN_SECONDS" by simp
    then show kept: "prune now (recently_seen st') (exposure d (vocabulary st' ! x)) = Some T"
      using stamp by (simp add: prune_Some)
    then show notin: "x \<notin> set (available_words scale d (vocabulary st') ratios'
                        (prune now (recently_seen st')) g')"
      by (simp add: available_words_def)
    show "fst (draw_mixed scale d ratios' now g' st') \<noteq> Drawn x"
    proof
      assume "fst (draw_mixed scale d ratios' now g' st') = Drawn x"
      then have "draw_mixed scale d ratios' now g' st' =
                 (Drawn x, snd (draw_mixed scale d ratios' now g' st'))"
        by (simp add: prod_eq_iff)
      then show False using draw_mixed_Drawn_cases notin by blast
    qed
  next
    fix now :: real and ratios' :: "(string \<times> 'a) list" and g' :: rng
    assume after: "T + COOLDOWN_SECONDS \<le> now"
    then have "\<not> now - T < COOLDOWN_SECONDS" by simp
    then show gone: "prune now (recently_seen st') (exposure d (vocabulary st' ! x)) = None"
      using stamp by (simp add: prune_None)
    then show "x \<in> set (available_words scale d (vocabulary st') ratios'
                        (prune now (recently_seen st')) g') \<longleftrightarrow>
             x \<in> set (select_random_mixture scale (vocabulary st') ratios' g')"
      by (simp add: available_words_def)
  qed
qed

theorem cooldown_correct_witness:
  "fst (draw_mixed floor_product SwedishToEnglish [(''0%'', 6 / 10), (''75%'', 0)] 1000
        \<lparr>sample_rnd = \<lambda>_ _. 0, shuffle_rnd = \<lambda>_. 1, choice_rnd = 0\<rparr>
        \<lparr>vocabulary = [\<lparr>swedish = ''hund'', english = ''dog'', label = ''0%'',
                          category = ''animals'', seen = 0\<rparr>,
                        \<lparr>swedish = ''katt'', english = ''cat'', label = ''75%'',
                          category = ''animals'', seen = 4\<rparr>],
          stored = Missing, recently_seen = Map.empty, current_word = None,
          reveal = False\<rparr>) = Drawn 1 \<and>
   (1299 :: real) < 1000 + COOLDOWN_SECONDS \<and>
   fst (draw_mixed floor_product SwedishToEnglish [(''0%'', 6 / 10), (''75%'', 0)] 1299
        \<lparr>sample_rnd = \<lambda>_ _. 0, shuffle_rnd = \<lambda>_. 1, choice_rnd = 0\<rparr>
        (snd (draw_mixed floor_product SwedishToEnglish [(''0%'', 6 / 10), (''75%'', 0)] 1000
        \<lparr>sample_rnd = \<lambda>_ _. 0, shuffle_rnd = \<lambda>_. 1, choice_rnd = 0\<rparr>
        \<lparr>vocabulary = [\<lparr>swedish = ''hund'', english = ''dog'', label = ''0%'',
                          category = ''animals'', seen = 0\<rparr>,
                        \<lparr>swedish = ''katt'', english = ''cat'', label = ''75%'',
                          category = ''animals'', seen = 4\<rparr>],
          stored = Missing, recently_seen = Map.empty, current_word = None,
          reveal = False\<rparr>))) \<noteq> Drawn 1 \<and>
   1000 + COOLDOWN_SECONDS \<le> (1301 :: real) \<and>
   1 \<in> set (available_words floor_product SwedishToEnglish
        (vocabulary (snd (draw_mixed floor_product SwedishToEnglish
           [(''0%'', 6 / 10), (''75%'', 0)] 1000
           \<lparr>sample_rnd = \<lambda>_ _. 0, shuffle_rnd = \<lambda>_. 1, choice_rnd = 0\<rparr>
           \<lparr>vocabulary = [\<lparr>swedish = ''hund'', english = ''dog'', label = ''0%'',
                             category = ''animals'', seen = 0\<rparr>,
                           \<lparr>swedish = ''katt'', english = ''cat'', label = ''75%'',
                             category = ''animals'', seen = 4\<rparr>],
             stored = Missing, recently_seen = Map.empty, current_word = None,
             reveal = False\<rparr>)))
        [(''0%'', 6 / 10), (''75%'', 0)]
        (prune 1301 (recently_seen (snd (draw_mixed floor_product SwedishToEnglish
           [(''0%'', 6 / 10), (''75%'', 0)] 1000
           \<lparr>sample_rnd = \<lambda>_ _. 0, shuffle_rnd = \<lambda>_. 1, choice_rnd = 0\<rparr>
           \<lparr>vocabulary = [\<lparr>swedish = ''hund'', english = ''dog'', label = ''0%'',
                             category = ''animals'', seen = 0\<rparr>,
                           \<lparr>swedish = ''katt'', english = ''cat'', label = ''75%'',
                             category = ''animals'', seen = 4\<rparr>],
             stored = Missing, recently_seen = Map.empty, current_word = None,
             reveal = False\<rparr>))))
        \<lparr>sample_rnd = \<lambda>_ _. 0, shuffle_rnd = \<lambda>_. 1, choice_rnd = 0\<rparr>) \<and>
   fst (draw_mixed floor_product SwedishToEnglish [(''0%'', 6 / 10), (''75%'', 0)] 1301
        \<lparr>sample_rnd = \<lambda>_ _. 0, shuffle_rnd = \<lambda>_. 1, choice_rnd = 0\<rparr>
        (snd (draw_mixed floor_product SwedishToEnglish [(''0%'', 6 / 10), (''75%'', 0)] 1000
        \<lparr>sample_rnd = \<lambda>_ _. 0, shuffle_rnd = \<lambda>_. 1, choice_rnd = 0\<rparr>
        \<lparr>vocabulary = [\<lparr>swedish = ''hund'', english = ''dog'', label = ''0%'',
                          category = ''animals'', seen = 0\<rparr>,
                        \<lparr>swedish = ''katt'', english = ''cat'', label = ''75%'',
                          category = ''animals'', seen = 4\<rparr>],
          stored = Missing, recently_seen = Map.empty, current_word = None,
          reveal = False\<rparr>))) = Drawn 1"
proof -
  let ?ws = "[\<lparr>swedish = ''hund'', english = ''dog'', label = ''0%'',
                category = ''animals'', seen = 0\<rparr>,
              \<lparr>swedish = ''katt'', english = ''cat'', label = ''75%'',
                category = ''animals'', seen = 4\<rparr>]"
  let ?st = "\<lparr>vocabulary = ?ws, stored = Missing, recently_seen = Map.empty,
              current_word = None, reveal = False\<rparr>"
  let ?g = "\<lparr>sample_rnd = \<lambda>_ _. 0, shuffle_rnd = \<lambda>_. 1, choice_rnd = 0\<rparr>"
  let ?rs = "[(''0%'', 6 / 10), (''75%'', 0 :: rat)]"
  let ?m = "draw_mixed floor_product SwedishToEnglish ?rs 1000 ?g ?st"
  have ch: "choice [1, 0 :: nat] 0 = 1" by (simp add: choice_def)
  have dm: "fst ?m = Drawn 1"
    using ex_available ch by (simp add: draw_mixed_eq draw_new_word_def Let_def)
  have em: "?m = (Drawn 1, snd ?m)" using dm by (simp add: prod_eq_iff)
  have b: "(1299 :: real) < 1000 + COOLDOWN_SECONDS" by (simp add: COOLDOWN_SECONDS_def)
  have a: "1000 + COOLDOWN_SECONDS \<le> (1301 :: real)" by (simp add: COOLDOWN_SECONDS_def)
  note t = cooldown_correct[OF em]
  note t1 = t[THEN conjunct1, rule_format, OF b, of ?rs ?g, THEN conjunct2, THEN conjunct2]
  note t2 = t[THEN conjunct2, rule_format, OF a, of ?rs ?g, THEN conjunct2]
  let ?ws' = "[\<lparr>swedish = ''hund'', english = ''dog'', label = ''0%'',
                 category = ''animals'', seen = 0\<rparr>,
               \<lparr>swedish = ''katt'', english = ''cat'', label = ''75%'',
                 category = ''animals'', seen = 5\<rparr>]"
  have vs: "vocabulary (snd ?m) = ?ws'"
    using ex_available ch by (simp add: draw_mixed_eq draw_new_word_def Let_def)
  have rk: "prune 1301 (recently_seen (snd ?m)) ''katt'' = None"
    using ex_available ch
    by (simp add: prune_def COOLDOWN_SECONDS_def draw_mixed_eq draw_new_word_def Let_def)
  have rh: "prune 1301 (recently_seen (snd ?m)) ''hund'' = None"
    using ex_available ch
    by (simp add: prune_def COOLDOWN_SECONDS_def draw_mixed_eq draw_new_word_def Let_def)
  have sm: "select_random_mixture floor_product ?ws' ?rs ?g = [1, 0]"
    by (simp add: select_random_mixture_def label_sample_def
        shuffle_def floor_product_def Let_def upt_conv_Cons numeral_2_eq_2)
  have s1: "1 \<in> set (select_random_mixture floor_product (vocabulary (snd ?m)) ?rs ?g)"
    unfolding vs sm by simp
  have m1: "1 \<in> set (available_words floor_product SwedishToEnglish (vocabulary (snd ?m)) ?rs
                 (prune 1301 (recently_seen (snd ?m))) ?g)"
    by (rule iffD2[OF t2 s1])
  have av: "available_words floor_product SwedishToEnglish (vocabulary (snd ?m)) ?rs
                 (prune 1301 (recently_seen (snd ?m))) ?g = [1, 0]"
    unfolding available_words_def vs sm using rk rh by simp
  have dr: "fst (draw_mixed floor_product SwedishToEnglish ?rs 1301 ?g (snd ?m)) = Drawn 1"
    unfolding draw_mixed_eq[of _ _ _ 1301] av using ch by (simp add: draw_new_word_def Let_def)
  show ?thesis by (intro conjI dm b t1 a m1 dr)
qed


text \<open>
  Claim C2 without the restriction to one direction does not hold. The two mixture pages share \<open>recently_seen\<close> and name a word by different fields.
  A word shown on the Swedish page at time 1000 is stamped under its \<open>swedish\<close>; the
  English page looks for its \<open>english\<close>, does not find it, and shows the same word at
  time 1001.
\<close>

theorem cooldown_other_direction:
  "fst (draw_mixed floor_product SwedishToEnglish [(''0%'', 6 / 10), (''75%'', 0)] 1000
        \<lparr>sample_rnd = \<lambda>_ _. 0, shuffle_rnd = \<lambda>_. 1, choice_rnd = 0\<rparr>
        \<lparr>vocabulary = [\<lparr>swedish = ''hund'', english = ''dog'', label = ''0%'',
                          category = ''animals'', seen = 0\<rparr>,
                        \<lparr>swedish = ''katt'', english = ''cat'', label = ''75%'',
                          category = ''animals'', seen = 4\<rparr>],
          stored = Missing, recently_seen = Map.empty, current_word = None,
          reveal = False\<rparr>) = Drawn 1 \<and>
   (1001 :: real) < 1000 + COOLDOWN_SECONDS \<and>
   fst (draw_mixed floor_product EnglishToSwedish [(''0%'', 6 / 10), (''75%'', 0)] 1001
        \<lparr>sample_rnd = \<lambda>_ _. 0, shuffle_rnd = \<lambda>_. 1, choice_rnd = 0\<rparr>
        (snd (draw_mixed floor_product SwedishToEnglish [(''0%'', 6 / 10), (''75%'', 0)] 1000
        \<lparr>sample_rnd = \<lambda>_ _. 0, shuffle_rnd = \<lambda>_. 1, choice_rnd = 0\<rparr>
        \<lparr>vocabulary = [\<lparr>swedish = ''hund'', english = ''dog'', label = ''0%'',
                          category = ''animals'', seen = 0\<rparr>,
                        \<lparr>swedish = ''katt'', english = ''cat'', label = ''75%'',
                          category = ''animals'', seen = 4\<rparr>],
          stored = Missing, recently_seen = Map.empty, current_word = None,
          reveal = False\<rparr>))) = Drawn 1"
proof -
  let ?ws = "[\<lparr>swedish = ''hund'', english = ''dog'', label = ''0%'',
                category = ''animals'', seen = 0\<rparr>,
              \<lparr>swedish = ''katt'', english = ''cat'', label = ''75%'',
                category = ''animals'', seen = 4\<rparr>]"
  let ?ws' = "[\<lparr>swedish = ''hund'', english = ''dog'', label = ''0%'',
                 category = ''animals'', seen = 0\<rparr>,
               \<lparr>swedish = ''katt'', english = ''cat'', label = ''75%'',
                 category = ''animals'', seen = 5\<rparr>]"
  let ?st = "\<lparr>vocabulary = ?ws, stored = Missing, recently_seen = Map.empty,
              current_word = None, reveal = False\<rparr>"
  let ?g = "\<lparr>sample_rnd = \<lambda>_ _. 0, shuffle_rnd = \<lambda>_. 1, choice_rnd = 0\<rparr>"
  let ?rs = "[(''0%'', 6 / 10), (''75%'', 0 :: rat)]"
  let ?m = "draw_mixed floor_product SwedishToEnglish ?rs 1000 ?g ?st"
  have ch: "choice [1, 0 :: nat] 0 = 1" by (simp add: choice_def)
  have dm: "fst ?m = Drawn 1"
    using ex_available ch by (simp add: draw_mixed_eq draw_new_word_def Let_def)
  have b: "(1001 :: real) < 1000 + COOLDOWN_SECONDS" by (simp add: COOLDOWN_SECONDS_def)
  have vs: "vocabulary (snd ?m) = ?ws'"
    using ex_available ch by (simp add: draw_mixed_eq draw_new_word_def Let_def)
  have rc: "prune 1001 (recently_seen (snd ?m)) ''cat'' = None"
    using ex_available ch
    by (simp add: prune_def COOLDOWN_SECONDS_def draw_mixed_eq draw_new_word_def Let_def)
  have rd: "prune 1001 (recently_seen (snd ?m)) ''dog'' = None"
    using ex_available ch
    by (simp add: prune_def COOLDOWN_SECONDS_def draw_mixed_eq draw_new_word_def Let_def)
  have sm: "select_random_mixture floor_product ?ws' ?rs ?g = [1, 0]"
    by (simp add: select_random_mixture_def label_sample_def
        shuffle_def floor_product_def Let_def upt_conv_Cons numeral_2_eq_2)
  have av: "available_words floor_product EnglishToSwedish (vocabulary (snd ?m)) ?rs
                 (prune 1001 (recently_seen (snd ?m))) ?g = [1, 0]"
    unfolding available_words_def vs sm using rc rd by simp
  have dr: "fst (draw_mixed floor_product EnglishToSwedish ?rs 1001 ?g (snd ?m)) = Drawn 1"
    unfolding draw_mixed_eq[of _ _ _ 1001] av using ch by (simp add: draw_new_word_def Let_def)
  show ?thesis by (intro conjI dm b dr)
qed

end
